theory Spec2Isabelle
  imports Main "HOL-Library.Sublist"
begin

section \<open>Data model\<close>

text \<open>
  The chat history is a list of UI messages. A message carries an identifier, a role,
  an ordered list of parts and its creation time; a part is either text or a tool
  invocation (\<^verbatim>\<open>ToolUIPart\<close>: the tool's name, the call identifier, the state of the call,
  its input and, once resolved, its output). Inputs and outputs of tool calls are kept
  as strings in the history.
\<close>

datatype role = User | Assistant | System

datatype inv_state = InputStreaming | InputAvailable | OutputAvailable

record tool_invocation =
  toolCallId :: string
  toolName :: string
  state :: inv_state
  input :: string
  output_value :: "string option"

datatype part = Text string | ToolInvocation tool_invocation

record message =
  msg_id :: string
  role :: role
  parts :: "part list"
  createdAt :: nat

section \<open>The chat agent: \<^verbatim>\<open>Chat.executeTask\<close>\<close>

text \<open>
  The agent object holds the message list (\<^verbatim>\<open>this.messages\<close>). \<^verbatim>\<open>saveMessages\<close> of the base
  class replaces the stored list by the list it is given. \<^verbatim>\<open>generateId()\<close> and
  \<^verbatim>\<open>new Date()\<close> read the environment, so the identifier and the time they return are
  arguments of the model.
\<close>

record chat =
  messages :: "message list"

definition saveMessages :: "message list \<Rightarrow> chat \<Rightarrow> chat" where
  "saveMessages ms c = c\<lparr>messages := ms\<rparr>"

definition executeTask :: "string \<Rightarrow> string \<Rightarrow> nat \<Rightarrow> chat \<Rightarrow> chat" where
  "executeTask description newId now c =
     saveMessages
       (messages c @
        [\<lparr>msg_id = newId, role = User,
          parts = [Text (''Running scheduled task: '' @ description)],
          createdAt = now\<rparr>])
       c"

section \<open>Exceptions of the JavaScript runtime\<close>

text \<open>
  A thrown value is an \<^verbatim>\<open>Error\<close> object (with a name such as \<^verbatim>\<open>Error\<close> or \<^verbatim>\<open>TypeError\<close> and a
  message), some other value with a string form, a symbol (with its description), or a
  value that cannot be converted to a primitive at all (an object without \<^verbatim>\<open>toString\<close>
  and \<^verbatim>\<open>valueOf\<close>).

  \<open>js_to_string\<close> is what a template literal makes of the value
  (\<^verbatim>\<open>Error.prototype.toString\<close> for an error object); it throws a \<^verbatim>\<open>TypeError\<close> for a symbol
  and for a value without a primitive form. \<open>js_String\<close> is the explicit conversion
  \<^verbatim>\<open>String(value)\<close>, which accepts a symbol. \<open>error_message\<close> is the source's
  \<^verbatim>\<open>error instanceof Error ? error.message : String(error)\<close>.
\<close>

datatype exn = ErrorObj string string | Thrown string | ThrownSymbol string | ThrownOpaque

fun js_to_string :: "exn \<Rightarrow> exn + string" where
  "js_to_string (ErrorObj name msg) =
     Inr (if name = [] then msg else if msg = [] then name else name @ '': '' @ msg)"
| "js_to_string (Thrown s) = Inr s"
| "js_to_string (ThrownSymbol d) =
     Inl (ErrorObj ''TypeError'' ''Cannot convert a Symbol value to a string'')"
| "js_to_string ThrownOpaque =
     Inl (ErrorObj ''TypeError'' ''Cannot convert object to primitive value'')"

fun js_String :: "exn \<Rightarrow> exn + string" where
  "js_String (ThrownSymbol d) = Inr (''Symbol('' @ d @ '')'')"
| "js_String e = js_to_string e"

fun error_message :: "exn \<Rightarrow> exn + string" where
  "error_message (ErrorObj name msg) = Inr msg"
| "error_message e = js_String e"

text \<open>
  The string a \<^verbatim>\<open>catch\<close> block returns: a fixed wording followed by the caught value in a
  template literal. When the value has no string form the conversion throws inside the
  \<^verbatim>\<open>catch\<close> block, and that exception leaves the function.
\<close>

definition error_output :: "string \<Rightarrow> exn \<Rightarrow> exn + string" where
  "error_output wording e =
     (case js_to_string e of Inl t \<Rightarrow> Inl t | Inr text \<Rightarrow> Inr (wording @ text))"

section \<open>Tool executors\<close>

text \<open>
  Console output is diagnostic only: it is not part of any value an executor returns
  and is left out of the model.
\<close>

subsection \<open>The agent seen by the executors\<close>

text \<open>
  The executors of the scheduling tools fetch the running agent with
  \<^verbatim>\<open>getCurrentAgent()\<close> and call its methods \<^verbatim>\<open>schedule\<close>, \<^verbatim>\<open>getSchedules\<close> and
  \<^verbatim>\<open>cancelSchedule\<close>. These methods belong to the agents package, so they are arguments
  of the model: each takes the agent's state and returns the new state together with
  either the exception it threw (\<open>Inl\<close>) or its value (\<open>Inr\<close>). \<^verbatim>\<open>getCurrentAgent()\<close>
  may find no agent; the context is therefore an optional agent state, and reading a
  method of the missing agent throws a \<^verbatim>\<open>TypeError\<close>.

  \<^verbatim>\<open>schedule\<close> and \<^verbatim>\<open>cancelSchedule\<close> are asynchronous: a call returns a promise, which
  later is fulfilled or rejected. The source awaits \<^verbatim>\<open>cancelSchedule\<close>, so for it a
  rejection is an exception at the call (\<open>Inl\<close>). It does not await \<^verbatim>\<open>schedule\<close>: the value
  of \<open>op_schedule\<close> is either an exception thrown by the call itself (\<open>Inl\<close>) or the
  promise it returned (\<open>Inr\<close>), given by how it settles: rejected with an exception or
  fulfilled. A failure of an asynchronous method is a rejected promise.

  An executor's run is recorded as its outcome (\<open>Inl\<close>: the exception leaves the
  executor), the agent methods it called, in order, and the agent afterwards.
\<close>

datatype sched_input = SDate string | SDelay int | SCron string

datatype agent_call =
    CallSchedule "sched_input option" string string
  | CallGetSchedules
  | CallCancelSchedule string

record ('a, 't) agent_ops =
  op_schedule :: "sched_input option \<Rightarrow> string \<Rightarrow> string \<Rightarrow> 'a \<Rightarrow> (exn + (exn + unit)) \<times> 'a"
  op_getSchedules :: "'a \<Rightarrow> (exn + 't list option) \<times> 'a"
  op_cancelSchedule :: "string \<Rightarrow> 'a \<Rightarrow> (exn + bool) \<times> 'a"

record ('a, 'r) exec_result =
  result :: "exn + 'r"
  calls :: "agent_call list"
  agent_after :: "'a option"

definition undefined_read :: "string \<Rightarrow> exn" where
  "undefined_read prop =
     ErrorObj ''TypeError''
       (''Cannot read properties of undefined (reading '' @ [CHR 0x27] @ prop @ [CHR 0x27] @ '')'')"

text \<open>Truthiness of an optional string: \<^verbatim>\<open>undefined\<close> and the empty string are falsy.\<close>

fun truthy :: "string option \<Rightarrow> bool" where
  "truthy None = False"
| "truthy (Some s) = (s \<noteq> [])"

text \<open>A template literal renders \<^verbatim>\<open>undefined\<close> as the word itself.\<close>

fun js_string_opt :: "string option \<Rightarrow> string" where
  "js_string_opt None = ''undefined''"
| "js_string_opt (Some s) = s"

subsection \<open>\<^verbatim>\<open>getLocalTime\<close> and \<^verbatim>\<open>getWeatherInformation\<close>\<close>

definition getLocalTime_execute :: "string \<Rightarrow> string" where
  "getLocalTime_execute loc = ''10am''"

definition getWeatherInformation_execution :: "string \<Rightarrow> string" where
  "getWeatherInformation_execution city = ''The weather in '' @ city @ '' is sunny''"

subsection \<open>\<^verbatim>\<open>scheduleTask\<close>\<close>

text \<open>
  The input follows \<^verbatim>\<open>extendedScheduleSchema\<close>: the schedule schema of the agents package
  (a description and a \<^verbatim>\<open>when\<close> object, whose \<^verbatim>\<open>type\<close> is one of four literals and whose
  fields \<^verbatim>\<open>date\<close>, \<^verbatim>\<open>delayInSeconds\<close> and \<^verbatim>\<open>cron\<close> the executor reads) extended by an
  optional \<^verbatim>\<open>dueDate\<close>. How a date or a number prints inside a template literal is the
  runtime's business: \<open>render\<close> is an argument.
\<close>

datatype when_type = Scheduled | Delayed | Cron | NoSchedule

fun when_type_name :: "when_type \<Rightarrow> string" where
  "when_type_name Scheduled = ''scheduled''"
| "when_type_name Delayed = ''delayed''"
| "when_type_name Cron = ''cron''"
| "when_type_name NoSchedule = ''no-schedule''"

record schedule_when =
  wtype :: when_type
  date :: "string option"
  delayInSeconds :: "int option"
  cron :: "string option"

record schedule_input =
  dueDate :: "string option"
  sched_when :: schedule_when
  description :: string

definition throwError :: "string \<Rightarrow> exn + 'x" where
  "throwError msg = Inl (ErrorObj ''Error'' msg)"

definition schedule_target :: "schedule_when \<Rightarrow> exn + sched_input option" where
  "schedule_target w =
     (if wtype w = Scheduled then Inr (map_option SDate (date w))
      else if wtype w = Delayed then Inr (map_option SDelay (delayInSeconds w))
      else if wtype w = Cron then Inr (map_option SCron (cron w))
      else throwError ''not a valid schedule input'')"

definition taskDescription :: "schedule_input \<Rightarrow> string" where
  "taskDescription inp =
     (if truthy (dueDate inp)
      then description inp @ '' (Due: '' @ js_string_opt (dueDate inp) @ '')''
      else description inp)"

definition scheduleTask_execute ::
  "('a, 't) agent_ops \<Rightarrow> (sched_input option \<Rightarrow> string) \<Rightarrow> 'a option \<Rightarrow> schedule_input
     \<Rightarrow> ('a, string) exec_result" where
  \<open>scheduleTask_execute ops render ctx inp =
     (if wtype (sched_when inp) = NoSchedule then
        \<lparr>result = Inr ''Not a valid schedule input'', calls = [], agent_after = ctx\<rparr>
      else
        case schedule_target (sched_when inp) of
          Inl e \<Rightarrow> \<lparr>result = Inl e, calls = [], agent_after = ctx\<rparr>
        | Inr target \<Rightarrow>
           (case ctx of
              None \<Rightarrow>
                \<lparr>result = error_output ''Error scheduling task: '' (undefined_read ''schedule''),
                 calls = [], agent_after = None\<rparr>
            | Some a \<Rightarrow>
                (case op_schedule ops target ''executeTask'' (taskDescription inp) a of
                   (Inl e, a') \<Rightarrow>
                     \<lparr>result = error_output ''Error scheduling task: '' e,
                      calls = [CallSchedule target ''executeTask'' (taskDescription inp)],
                      agent_after = Some a'\<rparr>
                 | (Inr promise, a') \<Rightarrow>
                    (let response = ''Task scheduled for type "''
                                    @ when_type_name (wtype (sched_when inp))
                                    @ ''": '' @ render target
                     in \<lparr>result = Inr (if truthy (dueDate inp)
                                        then response @ '' with due date: ''
                                             @ js_string_opt (dueDate inp)
                                        else response),
                         calls = [CallSchedule target ''executeTask'' (taskDescription inp)],
                         agent_after = Some a'\<rparr>))))\<close>

subsection \<open>\<^verbatim>\<open>getScheduledTasks\<close> and \<^verbatim>\<open>cancelScheduledTask\<close>\<close>

datatype 't tasks_output = Message string | TaskList "'t list"

definition getScheduledTasks_execute ::
  "('a, 't) agent_ops \<Rightarrow> 'a option \<Rightarrow> ('a, 't tasks_output) exec_result" where
  "getScheduledTasks_execute ops ctx =
     (case ctx of
        None \<Rightarrow>
          \<lparr>result = map_sum id Message
                      (error_output ''Error listing scheduled tasks: ''
                         (undefined_read ''getSchedules'')),
           calls = [], agent_after = None\<rparr>
      | Some a \<Rightarrow>
          (case op_getSchedules ops a of
             (Inl e, a') \<Rightarrow>
               \<lparr>result = map_sum id Message
                           (error_output ''Error listing scheduled tasks: '' e),
                calls = [CallGetSchedules], agent_after = Some a'\<rparr>
           | (Inr tasks, a') \<Rightarrow>
               \<lparr>result = Inr (case tasks of
                                None \<Rightarrow> Message ''No scheduled tasks found.''
                              | Some [] \<Rightarrow> Message ''No scheduled tasks found.''
                              | Some (t # ts) \<Rightarrow> TaskList (t # ts)),
                calls = [CallGetSchedules], agent_after = Some a'\<rparr>))"

definition cancelScheduledTask_execute ::
  "('a, 't) agent_ops \<Rightarrow> 'a option \<Rightarrow> string \<Rightarrow> ('a, string) exec_result" where
  "cancelScheduledTask_execute ops ctx taskId =
     (case ctx of
        None \<Rightarrow>
          \<lparr>result = error_output (''Error canceling task '' @ taskId @ '': '')
                      (undefined_read ''cancelSchedule''),
           calls = [], agent_after = None\<rparr>
      | Some a \<Rightarrow>
          (case op_cancelSchedule ops taskId a of
             (Inl e, a') \<Rightarrow>
               \<lparr>result = error_output (''Error canceling task '' @ taskId @ '': '') e,
                calls = [CallCancelSchedule taskId], agent_after = Some a'\<rparr>
           | (Inr b, a') \<Rightarrow>
               \<lparr>result = Inr (''Task '' @ taskId @ '' has been successfully canceled.''),
                calls = [CallCancelSchedule taskId], agent_after = Some a'\<rparr>))"

subsection \<open>Google Calendar (\<^verbatim>\<open>lib/google-calendar\<close>)\<close>

text \<open>
  The network, the clock and the process environment are the world the code runs in:
  \<open>process_env\<close> is \<^verbatim>\<open>process.env\<close> when a \<^verbatim>\<open>process\<close> object exists, \<open>fetch_token\<close> and
  \<open>fetch_insert_event\<close> are the two \<^verbatim>\<open>fetch\<close> calls (which may throw, or answer with a
  response whose \<^verbatim>\<open>text()\<close> and \<^verbatim>\<open>json()\<close> may throw in turn), \<open>parseDateTime\<close> and
  \<open>one_hour_after\<close> stand for the date arithmetic on the runtime's \<^verbatim>\<open>Date\<close>, and
  \<open>resolved_timeZone\<close> for the time zone of \<^verbatim>\<open>Intl\<close>. Strings are sequences of UTF-8 bytes.
\<close>

record calendar_input =
  title :: string
  cal_description :: "string option"
  startTime :: string
  endTime :: "string option"
  location :: "string option"
  attendees :: "string list option"

record event_time =
  dateTime :: string
  timeZone :: string

record google_calendar_event =
  summary :: string
  ev_description :: string
  ev_start :: event_time
  ev_end :: event_time
  ev_location :: "string option"
  ev_attendees :: "string list option"

record http_response =
  ok :: bool
  body_text :: "exn + string"
  body_json :: "exn + (string \<Rightarrow> string option)"

record world =
  process_env :: "(string \<Rightarrow> string option) option"
  fetch_token :: "string \<Rightarrow> string \<Rightarrow> string \<Rightarrow> exn + http_response"
  fetch_insert_event :: "string \<Rightarrow> google_calendar_event \<Rightarrow> exn + http_response"
  parseDateTime :: "string \<Rightarrow> string"
  one_hour_after :: "string \<Rightarrow> string"
  resolved_timeZone :: string

text \<open>
  The optional \<^verbatim>\<open>env\<close> argument is an object: a key may be absent (\<open>None\<close>), or present
  with a value that may be \<^verbatim>\<open>undefined\<close> (\<open>Some None\<close>).
\<close>

type_synonym env_object = "string \<Rightarrow> string option option"

definition getEnv :: "world \<Rightarrow> env_object option \<Rightarrow> string \<Rightarrow> string option" where
  "getEnv w env key =
     (let fallback = (case process_env w of Some pe \<Rightarrow> pe key | None \<Rightarrow> None)
      in case env of
           Some e \<Rightarrow> (case e key of Some v \<Rightarrow> v | None \<Rightarrow> fallback)
         | None \<Rightarrow> fallback)"

definition getAccessToken :: "world \<Rightarrow> env_object option \<Rightarrow> exn + string option" where
  "getAccessToken w env =
     (let clientId = getEnv w env ''GOOGLE_CLIENT_ID'';
          clientSecret = getEnv w env ''GOOGLE_CLIENT_SECRET'';
          refreshToken = getEnv w env ''GOOGLE_REFRESH_TOKEN''
      in if \<not> truthy clientId \<or> \<not> truthy clientSecret \<or> \<not> truthy refreshToken then
           Inl (ErrorObj ''Error''
                  (''Google Calendar credentials not configured. ''
                   @ ''Set GOOGLE_CLIENT_ID, GOOGLE_CLIENT_SECRET, and GOOGLE_REFRESH_TOKEN environment variables.''))
         else
           (case fetch_token w (js_string_opt clientId) (js_string_opt clientSecret)
                   (js_string_opt refreshToken) of
              Inl e \<Rightarrow> Inl e
            | Inr response \<Rightarrow>
                if \<not> ok response then
                  (case body_text response of
                     Inl e \<Rightarrow> Inl e
                   | Inr error \<Rightarrow> Inl (ErrorObj ''Error'' (''Failed to get access token: '' @ error)))
                else
                  (case body_json response of
                     Inl e \<Rightarrow> Inl e
                   | Inr data \<Rightarrow> Inr (data ''access_token''))))"

definition createGoogleCalendarEvent ::
  "world \<Rightarrow> calendar_input \<Rightarrow> env_object option \<Rightarrow> exn + string" where
  \<open>createGoogleCalendarEvent w inp env =
     (case getAccessToken w env of
        Inl e \<Rightarrow> Inl e
      | Inr accessToken \<Rightarrow>
         (let startDateTime = parseDateTime w (startTime inp);
              endDateTime = (if truthy (endTime inp)
                             then parseDateTime w (js_string_opt (endTime inp))
                             else one_hour_after w startDateTime);
              calendarEvent =
                \<lparr>summary = title inp,
                 ev_description = (if truthy (cal_description inp)
                                   then js_string_opt (cal_description inp) else []),
                 ev_start = \<lparr>dateTime = startDateTime, timeZone = resolved_timeZone w\<rparr>,
                 ev_end = \<lparr>dateTime = endDateTime, timeZone = resolved_timeZone w\<rparr>,
                 ev_location = (if truthy (location inp) then location inp else None),
                 ev_attendees = attendees inp\<rparr>
          in (case fetch_insert_event w (''Bearer '' @ js_string_opt accessToken) calendarEvent of
                Inl e \<Rightarrow> Inl e
              | Inr response \<Rightarrow>
                  if \<not> ok response then
                    (case body_text response of
                       Inl e \<Rightarrow> Inl e
                     | Inr error \<Rightarrow>
                         Inl (ErrorObj ''Error'' (''Failed to create calendar event: '' @ error)))
                  else
                    (case body_json response of
                       Inl e \<Rightarrow> Inl e
                     | Inr event \<Rightarrow>
                         Inr (''Calendar event "'' @ title inp
                              @ ''" created successfully! View it here: ''
                              @ js_string_opt (event ''htmlLink''))))))\<close>

subsection \<open>\<^verbatim>\<open>executions.createCalendarEvent\<close>\<close>

definition credentials_of_process :: "world \<Rightarrow> env_object option" where
  "credentials_of_process w =
     (case process_env w of
        Some pe \<Rightarrow>
          Some ((\<lambda>k. None)
                 (''GOOGLE_CLIENT_ID'' := Some (pe ''GOOGLE_CLIENT_ID''),
                  ''GOOGLE_CLIENT_SECRET'' := Some (pe ''GOOGLE_CLIENT_SECRET''),
                  ''GOOGLE_REFRESH_TOKEN'' := Some (pe ''GOOGLE_REFRESH_TOKEN'')))
      | None \<Rightarrow> None)"

text \<open>\<^verbatim>\<open>env?.KEY\<close>: the value under the key, \<^verbatim>\<open>undefined\<close> when there is no object.\<close>

definition env_field :: "env_object option \<Rightarrow> string \<Rightarrow> string option" where
  "env_field env key =
     (case env of
        Some e \<Rightarrow> (case e key of Some v \<Rightarrow> v | None \<Rightarrow> None)
      | None \<Rightarrow> None)"

definition cross_mark :: string where
  "cross_mark = [CHR 0xE2, CHR 0x9D, CHR 0x8C]"

definition possible_causes :: string where
  "possible_causes =
     ''\<newline>\<newline>Possible causes:\<newline>- Credentials missing from .dev.vars''
     @ ''\<newline>- Need to restart dev server after adding credentials''
     @ ''\<newline>- Invalid or expired refresh token''
     @ ''\<newline>- Google Calendar API not enabled''
     @ ''\<newline>- Network error''
     @ ''\<newline>\<newline>Check the server console for more details.''"

definition createCalendarEvent_attempt :: "world \<Rightarrow> calendar_input \<Rightarrow> exn + string" where
  "createCalendarEvent_attempt w inp =
     (let env = credentials_of_process w
      in if \<not> truthy (env_field env ''GOOGLE_CLIENT_ID'')
            \<or> \<not> truthy (env_field env ''GOOGLE_CLIENT_SECRET'')
            \<or> \<not> truthy (env_field env ''GOOGLE_REFRESH_TOKEN'')
         then Inl (ErrorObj ''Error''
                     (''Google Calendar credentials not found. ''
                      @ ''Make sure GOOGLE_CLIENT_ID, GOOGLE_CLIENT_SECRET, and GOOGLE_REFRESH_TOKEN ''
                      @ ''are set in your .dev.vars file and restart the dev server.''))
         else createGoogleCalendarEvent w inp env)"

definition createCalendarEvent_execution :: "world \<Rightarrow> calendar_input \<Rightarrow> exn + string" where
  "createCalendarEvent_execution w inp =
     (case createCalendarEvent_attempt w inp of
        Inr res \<Rightarrow> Inr res
      | Inl error \<Rightarrow>
          (case error_message error of
             Inl t \<Rightarrow> Inl t
           | Inr errorMessage \<Rightarrow>
               Inr (cross_mark @ '' Failed to create calendar event: '' @ errorMessage
                    @ possible_causes)))"

section \<open>The tool registry: \<^verbatim>\<open>tools\<close> and \<^verbatim>\<open>executions\<close>\<close>

text \<open>
  A tool has a description, an input schema (here the input type of its executor) and,
  when it runs without confirmation, an \<^verbatim>\<open>execute\<close> function. \<^verbatim>\<open>tools\<close> is an object with
  one field per tool; \<^verbatim>\<open>executions\<close> is a second object with the implementations of
  the tools that wait for a confirmation.
\<close>

record ('a, 'i, 'r) tool =
  tool_description :: string
  execute :: "('a option \<Rightarrow> 'i \<Rightarrow> ('a, 'r) exec_result) option"

definition tool_getWeatherInformation :: "('a, string, string) tool" where
  "tool_getWeatherInformation =
     \<lparr>tool_description = ''show the weather in a given city to the user'', execute = None\<rparr>"

definition tool_getLocalTime :: "('a, string, string) tool" where
  "tool_getLocalTime =
     \<lparr>tool_description = ''get the local time for a specified location'',
      execute = Some (\<lambda>ctx loc.
        \<lparr>result = Inr (getLocalTime_execute loc), calls = [], agent_after = ctx\<rparr>)\<rparr>"

definition tool_scheduleTask ::
  "('a, 't) agent_ops \<Rightarrow> (sched_input option \<Rightarrow> string) \<Rightarrow> ('a, schedule_input, string) tool" where
  "tool_scheduleTask ops render =
     \<lparr>tool_description = ''A tool to schedule a task to be executed at a later time. ''
                          @ ''Can optionally include a due date for the task.'',
      execute = Some (scheduleTask_execute ops render)\<rparr>"

definition tool_getScheduledTasks ::
  "('a, 't) agent_ops \<Rightarrow> ('a, unit, 't tasks_output) tool" where
  "tool_getScheduledTasks ops =
     \<lparr>tool_description = ''List all tasks that have been scheduled'',
      execute = Some (\<lambda>ctx u. getScheduledTasks_execute ops ctx)\<rparr>"

definition tool_cancelScheduledTask :: "('a, 't) agent_ops \<Rightarrow> ('a, string, string) tool" where
  "tool_cancelScheduledTask ops =
     \<lparr>tool_description = ''Cancel a scheduled task using its ID'',
      execute = Some (cancelScheduledTask_execute ops)\<rparr>"

definition tool_createCalendarEvent :: "('a, calendar_input, string) tool" where
  "tool_createCalendarEvent =
     \<lparr>tool_description =
        ''CALL THIS TOOL when the user wants to: block time, schedule a meeting, add to calendar, ''
        @ ''create calendar event, or put something on their schedule. ''
        @ ''This creates real events in their Google Calendar. ''
        @ ''REQUIRED when user mentions calendar, meeting, appointment, or scheduling.'',
      execute = None\<rparr>"

record ('a, 't) toolset =
  getWeatherInformation :: "('a, string, string) tool"
  getLocalTime :: "('a, string, string) tool"
  scheduleTask :: "('a, schedule_input, string) tool"
  getScheduledTasks :: "('a, unit, 't tasks_output) tool"
  cancelScheduledTask :: "('a, string, string) tool"
  createCalendarEvent :: "('a, calendar_input, string) tool"

definition tools ::
  "('a, 't) agent_ops \<Rightarrow> (sched_input option \<Rightarrow> string) \<Rightarrow> ('a, 't) toolset" where
  "tools ops render =
     \<lparr>getWeatherInformation = tool_getWeatherInformation,
      getLocalTime = tool_getLocalTime,
      scheduleTask = tool_scheduleTask ops render,
      getScheduledTasks = tool_getScheduledTasks ops,
      cancelScheduledTask = tool_cancelScheduledTask ops,
      createCalendarEvent = tool_createCalendarEvent\<rparr>"

record execution_set =
  exec_getWeatherInformation :: "string \<Rightarrow> string"
  exec_createCalendarEvent :: "calendar_input \<Rightarrow> exn + string"

definition executions :: "world \<Rightarrow> execution_set" where
  "executions w =
     \<lparr>exec_getWeatherInformation = getWeatherInformation_execution,
      exec_createCalendarEvent = createCalendarEvent_execution w\<rparr>"

text \<open>
  The keys of the two objects, in the order the source lists them. For a tool the entry
  also says whether the tool carries an \<^verbatim>\<open>execute\<close> function.
\<close>

definition has_execute :: "('a, 'i, 'r) tool \<Rightarrow> bool" where
  "has_execute t = (case execute t of None \<Rightarrow> False | Some f \<Rightarrow> True)"

definition tools_entries :: "('a, 't) toolset \<Rightarrow> (string \<times> bool) list" where
  "tools_entries T =
     [(''getWeatherInformation'', has_execute (getWeatherInformation T)),
      (''getLocalTime'', has_execute (getLocalTime T)),
      (''scheduleTask'', has_execute (scheduleTask T)),
      (''getScheduledTasks'', has_execute (getScheduledTasks T)),
      (''cancelScheduledTask'', has_execute (cancelScheduledTask T)),
      (''createCalendarEvent'', has_execute (createCalendarEvent T))]"

definition executions_keys :: "execution_set \<Rightarrow> string list" where
  "executions_keys E = [''getWeatherInformation'', ''createCalendarEvent'']"

definition autonomous_tools :: "('a, 't) toolset \<Rightarrow> string list" where
  "autonomous_tools T = map fst (filter snd (tools_entries T))"

definition confirmed_tools :: "('a, 't) toolset \<Rightarrow> string list" where
  "confirmed_tools T = map fst (filter (\<lambda>e. \<not> snd e) (tools_entries T))"

section \<open>The approval card: \<^verbatim>\<open>ToolInvocationCard\<close>\<close>

text \<open>
  The card is a function of its props: the tool part it shows, the call identifier it
  was given, and whether the tool needs a confirmation. Of what it renders, the model
  keeps the status line, the approval buttons, the result section and the approval
  notice; styling, the title and the expand/collapse state (which only changes style
  classes) are left out. A button is its label and the argument its click handler
  passes to \<^verbatim>\<open>onSubmit\<close>. The constant \<^verbatim>\<open>APPROVAL\<close> is imported from a module that is not
  part of the sources at hand, so its two values are an argument.
\<close>

record approval =
  YES :: string
  NO :: string

record card_props =
  toolUIPart :: tool_invocation
  card_toolCallId :: string
  needsConfirmation :: bool

record submission =
  submit_toolCallId :: string
  submit_result :: string

record button =
  label :: string
  onClick :: submission

record card_view =
  status :: string
  buttons :: "button list"
  tool_result :: "string option"
  approval_notice :: bool

definition getStatusInfo :: "card_props \<Rightarrow> string" where
  "getStatusInfo p =
     (if state (toolUIPart p) = OutputAvailable then
        [CHR 0xE2, CHR 0x9C, CHR 0x93] @ '' Completed''
      else if state (toolUIPart p) = InputAvailable then
        (if needsConfirmation p
         then [CHR 0xE2, CHR 0x8F, CHR 0xB3] @ '' Awaiting Approval''
         else [CHR 0xE2, CHR 0x9A, CHR 0x99, CHR 0xEF, CHR 0xB8, CHR 0x8F] @ '' Running...'')
      else [CHR 0xE2, CHR 0x8F, CHR 0xB3] @ '' Processing...'')"

definition ToolInvocationCard :: "approval \<Rightarrow> card_props \<Rightarrow> card_view" where
  "ToolInvocationCard APPROVAL p =
     \<lparr>status = getStatusInfo p,
      buttons =
        (if needsConfirmation p \<and> state (toolUIPart p) = InputAvailable then
           [\<lparr>label = ''Reject'',
             onClick = \<lparr>submit_toolCallId = card_toolCallId p, submit_result = NO APPROVAL\<rparr>\<rparr>,
            \<lparr>label = ''Approve'',
             onClick = \<lparr>submit_toolCallId = card_toolCallId p, submit_result = YES APPROVAL\<rparr>\<rparr>]
         else []),
      tool_result =
        (if state (toolUIPart p) = OutputAvailable then output_value (toolUIPart p) else None),
      approval_notice = (state (toolUIPart p) = InputAvailable \<and> needsConfirmation p)\<rparr>"

text \<open>Clicking the buttons with a given label: the arguments \<^verbatim>\<open>onSubmit\<close> receives.\<close>

definition click :: "string \<Rightarrow> card_view \<Rightarrow> submission list" where
  "click l v = map onClick (filter (\<lambda>b. label b = l) (buttons v))"

section \<open>The history sanitizer: \<^verbatim>\<open>cleanupMessages\<close>\<close>

text \<open>
  Modelled from the spec: \<^verbatim>\<open>cleanupMessages\<close> is imported by the server from the module
  \<^verbatim>\<open>./utils\<close>, which is not among the sources; this section follows the description of
  the history sanitizer. A tool invocation is non-terminal while its state is
  input-streaming or input-available.
\<close>

fun non_terminal :: "part \<Rightarrow> bool" where
  "non_terminal (Text t) = False"
| "non_terminal (ToolInvocation c) = (state c = InputStreaming \<or> state c = InputAvailable)"

text \<open>
  Modelled from the spec: the parts of the last message. A non-terminal invocation is
  dropped unless it is the last meaningful part of the message (the single outstanding
  approval candidate). The specification does not say which parts are meaningful, so the
  predicate is an argument.
\<close>

fun sanitize_last :: "(part \<Rightarrow> bool) \<Rightarrow> part list \<Rightarrow> part list" where
  "sanitize_last meaningful [] = []"
| "sanitize_last meaningful (p # ps) =
     (if non_terminal p \<and> \<not> (meaningful p \<and> list_all (\<lambda>q. \<not> meaningful q) ps)
      then sanitize_last meaningful ps
      else p # sanitize_last meaningful ps)"

text \<open>
  Modelled from the spec: the dropping step over the whole history. In every message but
  the last, each non-terminal invocation is dropped; the last message keeps its candidate.
\<close>

fun drop_dangling :: "(part \<Rightarrow> bool) \<Rightarrow> message list \<Rightarrow> message list" where
  "drop_dangling meaningful [] = []"
| "drop_dangling meaningful [m] = [m\<lparr>parts := sanitize_last meaningful (parts m)\<rparr>]"
| "drop_dangling meaningful (m # m' # ms) =
     m\<lparr>parts := filter (\<lambda>p. \<not> non_terminal p) (parts m)\<rparr>
       # drop_dangling meaningful (m' # ms)"

text \<open>
  Modelled from the spec: the sanitizer. After the dropping step, a message left without
  parts is removed entirely.
\<close>

definition cleanupMessages :: "(part \<Rightarrow> bool) \<Rightarrow> message list \<Rightarrow> message list" where
  "cleanupMessages meaningful H =
     filter (\<lambda>m. parts m \<noteq> []) (drop_dangling meaningful H)"

section \<open>The approval-gated executor: \<^verbatim>\<open>processToolCalls\<close>\<close>

text \<open>
  Modelled from the spec: \<^verbatim>\<open>processToolCalls\<close> is imported by the server from the module
  \<^verbatim>\<open>./utils\<close>, which is not among the sources; this section follows the description of
  the approval-gated executor. A tool definition has a name, the approval requirement, an
  input schema and an optional executor; an executor takes the input and returns a result
  or throws.
\<close>

type_synonym executor = "string \<Rightarrow> exn + string"

text \<open>
  Modelled from the spec: the tool definition of the registry (the source's \<^verbatim>\<open>tools\<close>
  reach the pass through the argument of that name).
\<close>

record tool_definition =
  def_name :: string
  requiresApproval :: bool
  inputSchema :: "string \<Rightarrow> bool"
  executor :: "executor option"

text \<open>
  Modelled from the spec: the registry maps a tool name to its definition; \<open>lookup\<close>
  answers with the definition or with \<open>None\<close> for an unknown name.
\<close>

definition lookup :: "tool_definition list \<Rightarrow> string \<Rightarrow> tool_definition option" where
  "lookup registry name = find (\<lambda>d. def_name d = name) registry"

text \<open>
  Modelled from the spec: an approval decision names a tool call and carries the value
  approved or rejected; the decision for a call is the recorded one that matches its
  identifier.
\<close>

datatype approval_value = APPROVED | REJECTED

text \<open>Modelled from the spec: a decision is bound to one tool call by its identifier.\<close>

record approval_decision =
  decision_toolCallId :: string
  decision_value :: approval_value

text \<open>
  Modelled from the spec: the search for the decision matching a call among the recorded
  ones.
\<close>

definition decision_for :: "approval_decision list \<Rightarrow> string \<Rightarrow> approval_value option" where
  "decision_for decisions callId =
     map_option decision_value (find (\<lambda>d. decision_toolCallId d = callId) decisions)"

text \<open>
  Modelled from the spec: what a pass produces besides the history. A delta reports a
  tool call that reached output-available; an invocation records one call of an
  executor. The pass stops advancing parts once \<open>stopped\<close> is set.
\<close>

record delta =
  delta_toolCallId :: string
  delta_state :: inv_state
  delta_output :: "string option"

text \<open>
  Modelled from the spec: one invocation of an executor, by the tool's name, the call's
  identifier and the input.
\<close>

record invocation =
  invoked_tool :: string
  invoked_call :: string
  invoked_input :: string

text \<open>
  Modelled from the spec: the state carried through a pass: whether it has stopped
  advancing, the deltas emitted and the executor invocations made so far.
\<close>

record pass_state =
  stopped :: bool
  deltas :: "delta list"
  invoked :: "invocation list"

text \<open>
  Modelled from the spec: the fixed cancellation marker and the formatting of an
  executor's error are not spelled out by the specification; both are arguments of the
  pass, as are the executors of the confirmed tools (the \<^verbatim>\<open>executions\<close> the server passes
  next to the tools).
\<close>

record pass_config =
  cancellation_marker :: string
  format_error :: "exn \<Rightarrow> string"
  registry :: "tool_definition list"
  bound_executions :: "string \<Rightarrow> executor option"
  decisions :: "approval_decision list"

text \<open>
  Modelled from the spec: a part is pending when it is a tool invocation in state
  input-available with no output; a pending part of a tool that requires approval is a
  pending confirmed call, an outstanding approval.
\<close>

fun pending_confirmed :: "tool_definition list \<Rightarrow> part \<Rightarrow> bool" where
  "pending_confirmed reg (Text t) = False"
| "pending_confirmed reg (ToolInvocation c) =
     (state c = InputAvailable \<and> output_value c = None
      \<and> (case lookup reg (toolName c) of None \<Rightarrow> False | Some d \<Rightarrow> requiresApproval d))"

text \<open>Modelled from the spec: the number of outstanding approvals of a history.\<close>

definition outstanding_approvals :: "tool_definition list \<Rightarrow> message list \<Rightarrow> nat" where
  "outstanding_approvals reg H = length (filter (pending_confirmed reg) (concat (map parts H)))"

text \<open>
  Modelled from the spec: invoking an executor on a pending call. On success the output
  is the result, on failure the formatted error; either way the call becomes
  output-available and a delta is emitted. When \<open>single\<close> is set (the single-outstanding
  invariant is violated) the pass stops after this call. A call with no executor to
  invoke is left as it is.
\<close>

definition run_executor ::
  "pass_config \<Rightarrow> bool \<Rightarrow> executor option \<Rightarrow> tool_invocation \<Rightarrow> pass_state
     \<Rightarrow> part \<times> pass_state" where
  "run_executor cfg single ex c st =
     (case ex of
        None \<Rightarrow> (ToolInvocation c, st)
      | Some f \<Rightarrow>
          (let out = (case f (input c) of Inr r \<Rightarrow> r | Inl e \<Rightarrow> format_error cfg e)
           in (ToolInvocation (c\<lparr>state := OutputAvailable, output_value := Some out\<rparr>),
               st\<lparr>stopped := single,
                  deltas := deltas st @ [\<lparr>delta_toolCallId = toolCallId c,
                                          delta_state = OutputAvailable,
                                          delta_output = Some out\<rparr>],
                  invoked := invoked st @ [\<lparr>invoked_tool = toolName c,
                                            invoked_call = toolCallId c,
                                            invoked_input = input c\<rparr>]\<rparr>)))"

text \<open>
  Modelled from the spec: one part of the pass. Only a pending part is touched. An
  autonomous tool runs its executor. A confirmed tool looks for its decision: with none,
  the part is left untouched and the pass stops advancing; rejected, the output becomes
  the cancellation marker and the call output-available, with no executor invoked;
  approved, the executor runs as in the autonomous case. A part of an unknown tool is
  left as it is.
\<close>

definition resolve_part :: "pass_config \<Rightarrow> bool \<Rightarrow> pass_state \<Rightarrow> part \<Rightarrow> part \<times> pass_state" where
  "resolve_part cfg single st p =
     (if stopped st then (p, st)
      else case p of
        Text t \<Rightarrow> (p, st)
      | ToolInvocation c \<Rightarrow>
          if \<not> (state c = InputAvailable \<and> output_value c = None) then (p, st)
          else
            (case lookup (registry cfg) (toolName c) of
               None \<Rightarrow> (p, st)
             | Some d \<Rightarrow>
                 if \<not> requiresApproval d then run_executor cfg single (executor d) c st
                 else
                   (case decision_for (decisions cfg) (toolCallId c) of
                      None \<Rightarrow> (p, st\<lparr>stopped := True\<rparr>)
                    | Some REJECTED \<Rightarrow>
                        (ToolInvocation
                           (c\<lparr>state := OutputAvailable,
                              output_value := Some (cancellation_marker cfg)\<rparr>),
                         st\<lparr>stopped := single,
                            deltas := deltas st
                              @ [\<lparr>delta_toolCallId = toolCallId c,
                                  delta_state = OutputAvailable,
                                  delta_output = Some (cancellation_marker cfg)\<rparr>]\<rparr>)
                    | Some APPROVED \<Rightarrow>
                        run_executor cfg single (bound_executions cfg (toolName c)) c st)))"

text \<open>
  Modelled from the spec: the pass goes through the history in document order, message
  by message and part by part. First the parts of one message, in their order.
\<close>

fun process_parts ::
  "pass_config \<Rightarrow> bool \<Rightarrow> pass_state \<Rightarrow> part list \<Rightarrow> part list \<times> pass_state" where
  "process_parts cfg single st [] = ([], st)"
| "process_parts cfg single st (p # ps) =
     (case resolve_part cfg single st p of
        (p', st') \<Rightarrow>
          (case process_parts cfg single st' ps of
             (ps', st'') \<Rightarrow> (p' # ps', st'')))"

text \<open>Modelled from the spec: the pass over the messages, in their order.\<close>

fun process_messages ::
  "pass_config \<Rightarrow> bool \<Rightarrow> pass_state \<Rightarrow> message list \<Rightarrow> message list \<times> pass_state" where
  "process_messages cfg single st [] = ([], st)"
| "process_messages cfg single st (m # ms) =
     (case process_parts cfg single st (parts m) of
        (ps', st') \<Rightarrow>
          (case process_messages cfg single st' ms of
             (ms', st'') \<Rightarrow> (m\<lparr>parts := ps'\<rparr> # ms', st'')))"

text \<open>
  Modelled from the spec: one pass of the approval-gated executor. When more than one
  approval is outstanding, only the earliest unresolved call is resolved and the rest
  stay pending. The pass returns the history, the deltas and the executor invocations.
\<close>

definition processToolCalls ::
  "pass_config \<Rightarrow> message list \<Rightarrow> message list \<times> delta list \<times> invocation list" where
  "processToolCalls cfg H =
     (case process_messages cfg (1 < outstanding_approvals (registry cfg) H)
             \<lparr>stopped = False, deltas = [], invoked = []\<rparr> H of
        (H', st) \<Rightarrow> (H', deltas st, invoked st))"

text \<open>
  Modelled from the spec: the invocations of the executor bound to a tool, among the
  invocations a pass made.
\<close>

definition invocations_of :: "string \<Rightarrow> invocation list \<Rightarrow> invocation list" where
  "invocations_of name log = filter (\<lambda>e. invoked_tool e = name) log"

section \<open>The step loop of a turn\<close>

text \<open>
  Modelled from the spec: the loop over model generations is run by \<^verbatim>\<open>streamText\<close> of the
  \<^verbatim>\<open>ai\<close> package, which is not among the sources; the server configures it with
  \<^verbatim>\<open>stopWhen: stepCountIs(10)\<close>. A generation of the model is a new assistant message: an
  optional text and the tool calls it proposes. The model may fail (a transport error).
\<close>

record proposal =
  proposed_toolCallId :: string
  proposed_toolName :: string
  proposed_input :: string

text \<open>
  Modelled from the spec: what the model generates in one step, with the identifier and
  the time of the new message.
\<close>

record generation =
  gen_id :: string
  gen_time :: nat
  gen_text :: "string option"
  gen_calls :: "proposal list"

type_synonym language_model = "message list \<Rightarrow> exn + generation"

text \<open>
  Modelled from the spec: a proposed call enters the history as a tool invocation in state
  input-available with no output.
\<close>

definition proposed_part :: "proposal \<Rightarrow> part" where
  "proposed_part pr =
     ToolInvocation \<lparr>toolCallId = proposed_toolCallId pr, toolName = proposed_toolName pr,
                     state = InputAvailable, input = proposed_input pr, output_value = None\<rparr>"

text \<open>Modelled from the spec: the assistant message a generation adds to the history.\<close>

definition assistant_message :: "generation \<Rightarrow> message" where
  "assistant_message g =
     \<lparr>msg_id = gen_id g, role = Assistant,
      parts = (case gen_text g of None \<Rightarrow> [] | Some t \<Rightarrow> [Text t])
              @ map proposed_part (gen_calls g),
      createdAt = gen_time g\<rparr>"

text \<open>Modelled from the spec: a proposed call is confirmed when its tool requires approval.\<close>

definition is_confirmed :: "tool_definition list \<Rightarrow> proposal \<Rightarrow> bool" where
  "is_confirmed reg pr =
     (case lookup reg (proposed_toolName pr) of None \<Rightarrow> False | Some d \<Rightarrow> requiresApproval d)"

text \<open>
  Modelled from the spec: the states of the loop. Besides the states GENERATING, TOOL
  PENDING and DONE of the controller there is the aborted turn of a transport failure.
\<close>

datatype loop_state = GENERATING | TOOL_PENDING | DONE | ABORTED

text \<open>
  Modelled from the spec: what a turn returns to its caller: the state it ended in, the
  steps it took (for each step the history the model was invoked with and what the model
  generated), the history reached, and whether the step budget ran out.
\<close>

record turn_result =
  final_state :: loop_state
  steps :: "(message list \<times> generation) list"
  turn_history :: "message list"
  budget_exhausted :: bool

text \<open>
  Modelled from the spec: the step loop. With no budget left the turn is forced to end
  and surfaces the history reached so far. Otherwise the model is invoked on the current
  history (one step); if it fails the turn is aborted and nothing beyond the sanitized
  snapshot is kept. Its calls are resolved by a pass of the approval-gated executor. A
  new confirmed call makes the loop pause (TOOL PENDING); a generation without calls ends
  the turn (DONE); otherwise the loop generates again from the updated history.
\<close>

fun step_loop ::
  "pass_config \<Rightarrow> language_model \<Rightarrow> message list \<Rightarrow> nat
     \<Rightarrow> (message list \<times> generation) list \<Rightarrow> message list \<Rightarrow> turn_result" where
  "step_loop cfg model snapshot 0 done H =
     \<lparr>final_state = DONE, steps = done, turn_history = H, budget_exhausted = True\<rparr>"
| "step_loop cfg model snapshot (Suc k) done H =
     (case model H of
        Inl e \<Rightarrow>
          \<lparr>final_state = ABORTED, steps = done, turn_history = snapshot,
           budget_exhausted = False\<rparr>
      | Inr g \<Rightarrow>
          (case processToolCalls cfg (H @ [assistant_message g]) of
             (H', ds, log) \<Rightarrow>
               if list_ex (is_confirmed (registry cfg)) (gen_calls g) then
                 \<lparr>final_state = TOOL_PENDING, steps = done @ [(H, g)], turn_history = H',
                  budget_exhausted = False\<rparr>
               else if gen_calls g = [] then
                 \<lparr>final_state = DONE, steps = done @ [(H, g)], turn_history = H',
                  budget_exhausted = False\<rparr>
               else step_loop cfg model snapshot k (done @ [(H, g)]) H'))"

text \<open>The step budget the server sets: \<^verbatim>\<open>stopWhen: stepCountIs(10)\<close>.\<close>

definition step_budget :: nat where
  "step_budget = 10"

text \<open>
  \<^verbatim>\<open>Chat.onChatMessage\<close>: the stored messages are cleaned, the pending tool calls of earlier
  messages are processed, and the result is handed to the step loop with the step budget.
\<close>

definition onChatMessage ::
  "pass_config \<Rightarrow> (part \<Rightarrow> bool) \<Rightarrow> language_model \<Rightarrow> message list \<Rightarrow> turn_result" where
  "onChatMessage cfg meaningful model msgs =
     (let cleanedMessages = cleanupMessages meaningful msgs
      in case processToolCalls cfg cleanedMessages of
           (processedMessages, ds, log) \<Rightarrow>
             step_loop cfg model cleanedMessages step_budget [] processedMessages)"

section \<open>What a history surfaces\<close>

text \<open>
  A part is the invocation of a proposed call when it carries the call's identifier, its
  tool name and its input; it is resolved when it is in state output-available and has
  an output.
\<close>

definition call_of :: "proposal \<Rightarrow> part \<Rightarrow> bool" where
  "call_of pr p =
     (case p of
        Text t \<Rightarrow> False
      | ToolInvocation c \<Rightarrow>
          toolCallId c = proposed_toolCallId pr \<and> toolName c = proposed_toolName pr
          \<and> input c = proposed_input pr)"

definition resolved :: "part \<Rightarrow> bool" where
  "resolved p =
     (case p of
        Text t \<Rightarrow> False
      | ToolInvocation c \<Rightarrow> state c = OutputAvailable \<and> output_value c \<noteq> None)"

text \<open>A history surfaces a proposed call when one of its parts is that call's invocation.\<close>

definition surfaced :: "message list \<Rightarrow> proposal \<Rightarrow> bool" where
  "surfaced H pr = list_ex (call_of pr) (concat (map parts H))"

definition surfaced_resolved :: "message list \<Rightarrow> proposal \<Rightarrow> bool" where
  "surfaced_resolved H pr = list_ex (\<lambda>p. call_of pr p \<and> resolved p) (concat (map parts H))"

text \<open>
  A list of steps accumulates a history from a starting one when the first step was
  taken on the starting history, every further step on the history the previous step
  left behind (its generation added and the tool calls processed), and the last step
  leaves the given history.
\<close>

fun accumulates ::
  "pass_config \<Rightarrow> message list \<Rightarrow> (message list \<times> generation) list \<Rightarrow> message list \<Rightarrow> bool" where
  "accumulates cfg H [] H' = (H' = H)"
| "accumulates cfg H ((H1, g) # ss) H' =
     (H1 = H \<and> accumulates cfg (fst (processToolCalls cfg (H @ [assistant_message g]))) ss H')"

section \<open>Sample environments\<close>

text \<open>
  Concrete agents for evaluating the executors: one whose three methods fail with the
  given exception and leave the state alone (the asynchronous \<^verbatim>\<open>schedule\<close> by returning a
  promise that is rejected), and one whose methods succeed and count the calls.
\<close>

definition failing_ops :: "exn \<Rightarrow> (nat, string) agent_ops" where
  "failing_ops e =
     \<lparr>op_schedule = (\<lambda>target callback payload a. (Inr (Inl e), a)),
      op_getSchedules = (\<lambda>a. (Inl e, a)),
      op_cancelSchedule = (\<lambda>taskId a. (Inl e, a))\<rparr>"

definition counting_ops :: "(nat, string) agent_ops" where
  "counting_ops =
     \<lparr>op_schedule = (\<lambda>target callback payload a. (Inr (Inr ()), Suc a)),
      op_getSchedules = (\<lambda>a. (Inr (Some []), Suc a)),
      op_cancelSchedule = (\<lambda>taskId a. (Inr True, Suc a))\<rparr>"

definition render_plain :: "sched_input option \<Rightarrow> string" where
  "render_plain t =
     (case t of
        None \<Rightarrow> ''undefined''
      | Some (SDate d) \<Rightarrow> d
      | Some (SDelay n) \<Rightarrow> ''<number>''
      | Some (SCron c) \<Rightarrow> c)"

text \<open>A world without a \<^verbatim>\<open>process\<close> object and without a network.\<close>

definition offline_world :: world where
  "offline_world =
     \<lparr>process_env = None,
      fetch_token = (\<lambda>cid secret refresh. Inl (ErrorObj ''TypeError'' ''fetch failed'')),
      fetch_insert_event = (\<lambda>auth ev. Inl (ErrorObj ''TypeError'' ''fetch failed'')),
      parseDateTime = (\<lambda>s. s),
      one_hour_after = (\<lambda>s. s),
      resolved_timeZone = ''UTC''\<rparr>"

text \<open>Sample inputs of the scheduling and calendar tools.\<close>

definition cron_input :: schedule_input where
  "cron_input =
     \<lparr>dueDate = Some ''Friday'',
      sched_when = \<lparr>wtype = Cron, date = None, delayInSeconds = None, cron = Some ''0 9 * * 1''\<rparr>,
      description = ''water the plants''\<rparr>"

definition no_schedule_input :: schedule_input where
  "no_schedule_input =
     \<lparr>dueDate = None,
      sched_when = \<lparr>wtype = NoSchedule, date = None, delayInSeconds = None, cron = None\<rparr>,
      description = ''nothing to schedule''\<rparr>"

definition review_event :: calendar_input where
  "review_event =
     \<lparr>title = ''Code Review'', cal_description = None, startTime = ''tomorrow at 2pm'',
      endTime = None, location = None, attendees = None\<rparr>"

definition table_missing :: exn where
  "table_missing = ErrorObj ''Error'' ''no such table: cf_agents_schedules''"

text \<open>
  A sample registry, history and decisions: the user asks for a calendar entry, the
  assistant has asked for the local time (an autonomous call, still pending) and proposed
  the calendar event (a confirmed call), which the user rejected.
\<close>

definition sample_registry :: "tool_definition list" where
  "sample_registry =
     [\<lparr>def_name = ''getLocalTime'', requiresApproval = False, inputSchema = (\<lambda>i. True),
       executor = Some (\<lambda>i. Inr ''10am'')\<rparr>,
      \<lparr>def_name = ''createCalendarEvent'', requiresApproval = True, inputSchema = (\<lambda>i. True),
       executor = None\<rparr>]"

definition sample_config :: "approval_decision list \<Rightarrow> pass_config" where
  "sample_config ds =
     \<lparr>cancellation_marker = ''cancelled by the user'',
      format_error = (\<lambda>e. ''Error: '' @ (case error_message e of Inl t \<Rightarrow> [] | Inr m \<Rightarrow> m)),
      registry = sample_registry,
      bound_executions =
        (\<lambda>name. if name = ''createCalendarEvent'' then Some (\<lambda>i. Inr ''OK'') else None),
      decisions = ds\<rparr>"

definition user_request :: message where
  "user_request =
     \<lparr>msg_id = ''m1'', role = User, parts = [Text ''Block my calendar tomorrow at 2pm''],
      createdAt = 1\<rparr>"

definition time_call :: tool_invocation where
  "time_call =
     \<lparr>toolCallId = ''call-1'', toolName = ''getLocalTime'', state = InputAvailable,
      input = ''Lisbon'', output_value = None\<rparr>"

definition calendar_call :: tool_invocation where
  "calendar_call =
     \<lparr>toolCallId = ''call-2'', toolName = ''createCalendarEvent'', state = InputAvailable,
      input = ''Code Review, tomorrow at 2pm'', output_value = None\<rparr>"

definition assistant_reply :: message where
  "assistant_reply =
     \<lparr>msg_id = ''m2'', role = Assistant,
      parts = [Text ''Let me check the time.'', ToolInvocation time_call,
               ToolInvocation calendar_call],
      createdAt = 2\<rparr>"

definition rejection :: approval_decision where
  "rejection = \<lparr>decision_toolCallId = ''call-2'', decision_value = REJECTED\<rparr>"

text \<open>A model that proposes a call of \<^verbatim>\<open>getLocalTime\<close> at every generation.\<close>

definition restless_model :: language_model where
  "restless_model H =
     Inr \<lparr>gen_id = ''a'', gen_time = length H, gen_text = None,
          gen_calls = [\<lparr>proposed_toolCallId = ''c'', proposed_toolName = ''getLocalTime'',
                        proposed_input = ''Lisbon''\<rparr>]\<rparr>"

text \<open>Every part counts as meaningful.\<close>

definition every_part :: "part \<Rightarrow> bool" where
  "every_part p = True"

text \<open>The example of the specification: a dangling call followed by a user message.\<close>

definition dangling_history :: "message list" where
  "dangling_history =
     [\<lparr>msg_id = ''m1'', role = Assistant, parts = [ToolInvocation calendar_call], createdAt = 1\<rparr>,
      \<lparr>msg_id = ''m2'', role = User, parts = [Text ''hello''], createdAt = 2\<rparr>]"

text \<open>A pending calendar call shown by the card, and sample values of \<^verbatim>\<open>APPROVAL\<close>.\<close>

definition pending_card :: card_props where
  "pending_card =
     \<lparr>toolUIPart = calendar_call, card_toolCallId = ''call-2'', needsConfirmation = True\<rparr>"

definition sample_approval :: approval where
  "sample_approval = \<lparr>YES = ''Yes, confirmed.'', NO = ''No, denied.''\<rparr>"

section \<open>Notions used in the proofs\<close>

text \<open>A message is clean when none of its parts is a non-terminal invocation.\<close>

definition clean :: "message \<Rightarrow> bool" where
  "clean m = list_all (\<lambda>p. \<not> non_terminal p) (parts m)"

text \<open>The invocations of the executor of a tool recorded in a pass state.\<close>

definition calls_of :: "string \<Rightarrow> pass_state \<Rightarrow> invocation list" where
  "calls_of name st = filter (\<lambda>e. invoked_tool e = name) (invoked st)"

text \<open>
  A part is ready when it is a pending invocation of an autonomous tool that has an
  executor: the pass will run it. A history is quiet when none of its parts is a pending
  confirmed call.
\<close>

definition ready :: "pass_config \<Rightarrow> part \<Rightarrow> bool" where
  "ready cfg p =
     (case p of
        Text t \<Rightarrow> False
      | ToolInvocation c \<Rightarrow>
          state c = InputAvailable \<and> output_value c = None
          \<and> (case lookup (registry cfg) (toolName c) of
                None \<Rightarrow> False
              | Some d \<Rightarrow> \<not> requiresApproval d \<and> executor d \<noteq> None))"

definition quiet :: "pass_config \<Rightarrow> message list \<Rightarrow> bool" where
  "quiet cfg H = list_all (\<lambda>p. \<not> pending_confirmed (registry cfg) p) (concat (map parts H))"

text \<open>
  A generation is runnable when each of its calls names an autonomous tool that has an
  executor.
\<close>

definition runnable :: "pass_config \<Rightarrow> generation \<Rightarrow> bool" where
  "runnable cfg g = (\<forall>pr\<in>set (gen_calls g).
     \<exists>d f. lookup (registry cfg) (proposed_toolName pr) = Some d \<and> \<not> requiresApproval d
           \<and> executor d = Some f)"

section \<open>Properties\<close>

subsection \<open>Auxiliary facts about the executors\<close>

lemma getScheduledTasks_throw:
  assumes "fst (op_getSchedules ops a) = Inl e" and "js_to_string e = Inr text"
  shows "result (getScheduledTasks_execute ops (Some a))
           = Inr (Message (''Error listing scheduled tasks: '' @ text))"
  using assms
  by (cases "op_getSchedules ops a") (auto simp: getScheduledTasks_execute_def error_output_def)

lemma cancelScheduledTask_throw:
  assumes "fst (op_cancelSchedule ops taskId a) = Inl e" and "js_to_string e = Inr text"
  shows "result (cancelScheduledTask_execute ops (Some a) taskId)
           = Inr (''Error canceling task '' @ taskId @ '': '' @ text)"
  using assms
  by (cases "op_cancelSchedule ops taskId a")
     (auto simp: cancelScheduledTask_execute_def error_output_def)

lemma createCalendarEvent_throw:
  assumes "createCalendarEvent_attempt w inp = Inl e" and "error_message e = Inr text"
  shows "createCalendarEvent_execution w inp
           = Inr (cross_mark @ '' Failed to create calendar event: '' @ text
                  @ possible_causes)"
  using assms by (simp add: createCalendarEvent_execution_def)

lemma offline_attempt:
  "createCalendarEvent_attempt offline_world review_event
     = Inl (ErrorObj ''Error''
             (''Google Calendar credentials not found. ''
              @ ''Make sure GOOGLE_CLIENT_ID, GOOGLE_CLIENT_SECRET, and GOOGLE_REFRESH_TOKEN ''
              @ ''are set in your .dev.vars file and restart the dev server.''))"
  by (simp add: createCalendarEvent_attempt_def offline_world_def credentials_of_process_def
      env_field_def)

subsection \<open>Auxiliary facts about the sanitizer\<close>

lemma set_sanitize_last: "set (sanitize_last mf ps) \<subseteq> set ps"
  by (induction ps) auto

lemma sanitize_last_idem: "sanitize_last mf (sanitize_last mf ps) = sanitize_last mf ps"
proof (induction ps)
  case Nil
  then show ?case by simp
next
  case (Cons p ps)
  have "list_all (\<lambda>q. \<not> mf q) ps \<Longrightarrow> list_all (\<lambda>q. \<not> mf q) (sanitize_last mf ps)"
    using set_sanitize_last [of mf ps] by (auto simp: list_all_iff)
  with Cons show ?case by auto
qed

lemma sanitize_last_id:
  "list_all (\<lambda>p. \<not> non_terminal p) ps \<Longrightarrow> sanitize_last mf ps = ps"
  by (induction ps) auto

lemma drop_dangling_snoc:
  "drop_dangling mf (ms @ [m])
     = map (\<lambda>m. m\<lparr>parts := filter (\<lambda>p. \<not> non_terminal p) (parts m)\<rparr>) ms
       @ [m\<lparr>parts := sanitize_last mf (parts m)\<rparr>]"
proof (induction ms)
  case Nil
  then show ?case by simp
next
  case (Cons a ms)
  then show ?case by (cases "ms @ [m]") auto
qed

lemma drop_dangling_clean_id:
  "list_all clean ms \<Longrightarrow> drop_dangling mf ms = ms"
proof (induction mf ms rule: drop_dangling.induct)
  case (1 mf)
  then show ?case by simp
next
  case (2 mf m)
  then show ?case by (simp add: clean_def sanitize_last_id)
next
  case (3 mf m m' ms)
  then have "filter (\<lambda>p. \<not> non_terminal p) (parts m) = parts m"
    by (simp add: clean_def list_all_iff)
  with 3 show ?case by simp
qed

subsection \<open>Auxiliary facts about the approval-gated executor and the step loop\<close>

lemma resolve_part_other:
  assumes "\<not> stopped st" "\<not> pending_confirmed (registry cfg) p"
    and "lookup (registry cfg) name = Some d" "requiresApproval d"
    and "resolve_part cfg False st p = (p', st')"
  shows "\<not> stopped st' \<and> calls_of name st' = calls_of name st"
proof (cases p)
  case (Text t)
  with assms show ?thesis by (simp add: resolve_part_def)
next
  case (ToolInvocation c)
  show ?thesis
  proof (cases "state c = InputAvailable \<and> output_value c = None")
    case False
    with assms ToolInvocation show ?thesis by (auto simp: resolve_part_def)
  next
    case True
    show ?thesis
    proof (cases "lookup (registry cfg) (toolName c)")
      case None
      with assms ToolInvocation True show ?thesis by (auto simp: resolve_part_def)
    next
      case (Some d')
      with assms(2) ToolInvocation True have na: "\<not> requiresApproval d'" by simp
      with assms(3,4) Some have ne: "toolName c \<noteq> name" by auto
      from assms(1,5) ToolInvocation True Some na
      have "run_executor cfg False (executor d') c st = (p', st')"
        by (simp add: resolve_part_def)
      with assms(1) ne show ?thesis
        by (auto simp: run_executor_def calls_of_def Let_def split: option.splits)
    qed
  qed
qed

lemma process_parts_others:
  assumes "\<not> stopped st" "\<forall>p\<in>set ps. \<not> pending_confirmed (registry cfg) p"
    and "lookup (registry cfg) name = Some d" "requiresApproval d"
    and "process_parts cfg False st ps = (ps', st')"
  shows "\<not> stopped st' \<and> calls_of name st' = calls_of name st \<and> length ps' = length ps"
  using assms
proof (induction ps arbitrary: st ps' st')
  case Nil
  then show ?case by simp
next
  case (Cons p ps)
  obtain q st1 where r: "resolve_part cfg False st p = (q, st1)"
    by (cases "resolve_part cfg False st p")
  obtain qs st2 where pp: "process_parts cfg False st1 ps = (qs, st2)"
    by (cases "process_parts cfg False st1 ps")
  from Cons.prems(5) r pp have eq: "ps' = q # qs" "st' = st2" by auto
  from Cons.prems(2) have np: "\<not> pending_confirmed (registry cfg) p" by simp
  have s1: "\<not> stopped st1 \<and> calls_of name st1 = calls_of name st"
    using resolve_part_other [OF Cons.prems(1) np Cons.prems(3,4) r] .
  have "\<not> stopped st2 \<and> calls_of name st2 = calls_of name st1 \<and> length qs = length ps"
    using Cons.IH [of st1 qs st2] s1 Cons.prems(2,3,4) pp by simp
  with s1 eq show ?case by simp
qed

lemma process_parts_append:
  "process_parts cfg single st (xs @ ys) =
     (case process_parts cfg single st xs of
        (xs', st') \<Rightarrow>
          (case process_parts cfg single st' ys of
             (ys', st'') \<Rightarrow> (xs' @ ys', st'')))"
  by (induction xs arbitrary: st) (auto split: prod.splits)

lemma process_messages_append:
  "process_messages cfg single st (xs @ ys) =
     (case process_messages cfg single st xs of
        (xs', st') \<Rightarrow>
          (case process_messages cfg single st' ys of
             (ys', st'') \<Rightarrow> (xs' @ ys', st'')))"
  by (induction xs arbitrary: st) (auto split: prod.splits)

lemma process_messages_others:
  assumes "\<not> stopped st" "\<forall>p\<in>set (concat (map parts ms)). \<not> pending_confirmed (registry cfg) p"
    and "lookup (registry cfg) name = Some d" "requiresApproval d"
    and "process_messages cfg False st ms = (ms', st')"
  shows "\<not> stopped st' \<and> calls_of name st' = calls_of name st \<and> length ms' = length ms"
  using assms
proof (induction ms arbitrary: st ms' st')
  case Nil
  then show ?case by simp
next
  case (Cons m ms)
  obtain qs st1 where r: "process_parts cfg False st (parts m) = (qs, st1)"
    by (cases "process_parts cfg False st (parts m)")
  obtain ns st2 where pp: "process_messages cfg False st1 ms = (ns, st2)"
    by (cases "process_messages cfg False st1 ms")
  from Cons.prems(5) r pp have eq: "ms' = m\<lparr>parts := qs\<rparr> # ns" "st' = st2" by auto
  from Cons.prems(2) have np: "\<forall>p\<in>set (parts m). \<not> pending_confirmed (registry cfg) p"
    and nr: "\<forall>p\<in>set (concat (map parts ms)). \<not> pending_confirmed (registry cfg) p"
    by simp_all
  have s1: "\<not> stopped st1 \<and> calls_of name st1 = calls_of name st \<and> length qs = length (parts m)"
    using process_parts_others [OF Cons.prems(1) np Cons.prems(3,4) r] .
  have "\<not> stopped st2 \<and> calls_of name st2 = calls_of name st1 \<and> length ns = length ms"
    using Cons.IH [of st1 ns st2] s1 nr Cons.prems(3,4) pp by simp
  with s1 eq show ?case by simp
qed

lemma resolve_part_rejected:
  assumes "\<not> stopped st" "state c = InputAvailable" "output_value c = None"
    and "lookup (registry cfg) (toolName c) = Some d" "requiresApproval d"
    and "decision_for (decisions cfg) (toolCallId c) = Some REJECTED"
  shows "resolve_part cfg single st (ToolInvocation c)
           = (ToolInvocation (c\<lparr>state := OutputAvailable,
                                output_value := Some (cancellation_marker cfg)\<rparr>),
              st\<lparr>stopped := single,
                 deltas := deltas st @ [\<lparr>delta_toolCallId = toolCallId c,
                                         delta_state = OutputAvailable,
                                         delta_output = Some (cancellation_marker cfg)\<rparr>]\<rparr>)"
  using assms by (simp add: resolve_part_def)

lemma filter_none: "\<forall>x\<in>set xs. \<not> P x \<Longrightarrow> filter P xs = []"
  by (induction xs) auto

lemma resolve_part_call_of:
  "resolve_part cfg single st p = (p', st') \<Longrightarrow> call_of pr p \<Longrightarrow> call_of pr p'"
  by (auto simp: resolve_part_def run_executor_def call_of_def Let_def
      split: if_splits part.splits option.splits approval_value.splits)

lemma process_parts_call_of:
  "process_parts cfg single st ps = (ps', st') \<Longrightarrow> list_ex (call_of pr) ps
     \<Longrightarrow> list_ex (call_of pr) ps'"
proof (induction ps arbitrary: st ps' st')
  case Nil
  then show ?case by simp
next
  case (Cons p ps)
  obtain q st1 where r: "resolve_part cfg single st p = (q, st1)"
    by (cases "resolve_part cfg single st p")
  obtain qs st2 where pp: "process_parts cfg single st1 ps = (qs, st2)"
    by (cases "process_parts cfg single st1 ps")
  from Cons.prems(1) r pp have eq: "ps' = q # qs" by auto
  from Cons.prems(2) show ?case
    using resolve_part_call_of [OF r] Cons.IH [OF pp] eq by auto
qed

lemma process_messages_call_of:
  "process_messages cfg single st ms = (ms', st')
     \<Longrightarrow> list_ex (call_of pr) (concat (map parts ms))
     \<Longrightarrow> list_ex (call_of pr) (concat (map parts ms'))"
proof (induction ms arbitrary: st ms' st')
  case Nil
  then show ?case by simp
next
  case (Cons m ms)
  obtain qs st1 where r: "process_parts cfg single st (parts m) = (qs, st1)"
    by (cases "process_parts cfg single st (parts m)")
  obtain ns st2 where pp: "process_messages cfg single st1 ms = (ns, st2)"
    by (cases "process_messages cfg single st1 ms")
  from Cons.prems(1) r pp have eq: "ms' = m\<lparr>parts := qs\<rparr> # ns" by auto
  from Cons.prems(2)
  have "list_ex (call_of pr) (parts m) \<or> list_ex (call_of pr) (concat (map parts ms))"
    by simp
  then show ?case
    using process_parts_call_of [OF r] Cons.IH [OF pp] eq by auto
qed

lemma processToolCalls_surfaced:
  "surfaced H pr \<Longrightarrow> surfaced (fst (processToolCalls cfg H)) pr"
  by (auto simp: surfaced_def processToolCalls_def split: prod.splits
      dest: process_messages_call_of)

lemma call_of_proposed_part: "call_of pr (proposed_part pr)"
  by (simp add: call_of_def proposed_part_def)

lemma surfaced_generation:
  "pr \<in> set (gen_calls g) \<Longrightarrow> surfaced (H @ [assistant_message g]) pr"
  using call_of_proposed_part [of pr]
  by (auto simp: surfaced_def assistant_message_def list_ex_iff)

lemma surfaced_append: "surfaced H pr \<Longrightarrow> surfaced (H @ ms) pr"
  by (auto simp: surfaced_def list_ex_iff)

lemma accumulates_keeps_surfaced:
  "accumulates cfg H ss H' \<Longrightarrow> surfaced H pr \<Longrightarrow> surfaced H' pr"
proof (induction ss arbitrary: H)
  case Nil
  then show ?case by simp
next
  case (Cons s ss)
  obtain H1 g where s: "s = (H1, g)" by (cases s)
  from Cons.prems(1) s
  have a: "accumulates cfg (fst (processToolCalls cfg (H @ [assistant_message g]))) ss H'"
    by simp
  have "surfaced (fst (processToolCalls cfg (H @ [assistant_message g]))) pr"
    using Cons.prems(2) by (intro processToolCalls_surfaced surfaced_append)
  with Cons.IH [OF a] show ?case .
qed

lemma accumulates_surfaces_steps:
  "accumulates cfg H ss H' \<Longrightarrow> (H1, g) \<in> set ss \<Longrightarrow> pr \<in> set (gen_calls g)
     \<Longrightarrow> surfaced H' pr"
proof (induction ss arbitrary: H)
  case Nil
  then show ?case by simp
next
  case (Cons s ss)
  obtain H2 g2 where s: "s = (H2, g2)" by (cases s)
  from Cons.prems(1) s
  have a: "accumulates cfg (fst (processToolCalls cfg (H @ [assistant_message g2]))) ss H'"
    by simp
  show ?case
  proof (cases "(H1, g) = s")
    case True
    with s have "g2 = g" by simp
    then have "surfaced (fst (processToolCalls cfg (H @ [assistant_message g2]))) pr"
      using Cons.prems(3) by (intro processToolCalls_surfaced surfaced_generation) simp
    with accumulates_keeps_surfaced [OF a] show ?thesis .
  next
    case False
    with Cons.prems(2) have "(H1, g) \<in> set ss" by simp
    with Cons.IH [OF a] Cons.prems(3) show ?thesis by simp
  qed
qed

lemma resolve_part_quiet:
  assumes "\<not> stopped st" "\<not> pending_confirmed (registry cfg) p"
    and "resolve_part cfg False st p = (p', st')"
  shows "\<not> stopped st' \<and> \<not> pending_confirmed (registry cfg) p'
         \<and> (call_of pr p \<and> (resolved p \<or> ready cfg p) \<longrightarrow> call_of pr p' \<and> resolved p')"
proof (cases p)
  case (Text t)
  with assms show ?thesis by (auto simp: resolve_part_def call_of_def)
next
  case (ToolInvocation c)
  show ?thesis
  proof (cases "state c = InputAvailable \<and> output_value c = None")
    case False
    with assms ToolInvocation show ?thesis
      by (auto simp: resolve_part_def ready_def)
  next
    case True
    show ?thesis
    proof (cases "lookup (registry cfg) (toolName c)")
      case None
      with assms ToolInvocation True show ?thesis
        by (auto simp: resolve_part_def ready_def resolved_def)
    next
      case (Some d)
      with assms(2) ToolInvocation True have na: "\<not> requiresApproval d" by simp
      from assms(1,3) ToolInvocation True Some na
      have r: "run_executor cfg False (executor d) c st = (p', st')"
        by (simp add: resolve_part_def)
      show ?thesis
      proof (cases "executor d")
        case None
        with r assms ToolInvocation True Some show ?thesis
          by (auto simp: run_executor_def ready_def resolved_def)
      next
        case (Some f)
        with r assms(1) ToolInvocation show ?thesis
          by (auto simp: run_executor_def Let_def call_of_def resolved_def)
      qed
    qed
  qed
qed

lemma process_parts_quiet:
  assumes "\<not> stopped st" "list_all (\<lambda>p. \<not> pending_confirmed (registry cfg) p) ps"
    and "process_parts cfg False st ps = (ps', st')"
  shows "\<not> stopped st' \<and> list_all (\<lambda>p. \<not> pending_confirmed (registry cfg) p) ps'
         \<and> (list_ex (\<lambda>p. call_of pr p \<and> (resolved p \<or> ready cfg p)) ps
              \<longrightarrow> list_ex (\<lambda>p. call_of pr p \<and> resolved p) ps')"
  using assms
proof (induction ps arbitrary: st ps' st')
  case Nil
  then show ?case by simp
next
  case (Cons p ps)
  obtain q st1 where r: "resolve_part cfg False st p = (q, st1)"
    by (cases "resolve_part cfg False st p")
  obtain qs st2 where pp: "process_parts cfg False st1 ps = (qs, st2)"
    by (cases "process_parts cfg False st1 ps")
  from Cons.prems(3) r pp have eq: "ps' = q # qs" "st' = st2" by auto
  from Cons.prems(2) have np: "\<not> pending_confirmed (registry cfg) p"
    and nr: "list_all (\<lambda>p. \<not> pending_confirmed (registry cfg) p) ps" by simp_all
  note s1 = resolve_part_quiet [OF Cons.prems(1) np r, of pr]
  from s1 have u1: "\<not> stopped st1" by simp
  note s2 = Cons.IH [OF u1 nr pp]
  from s1 s2 eq show ?case by auto
qed

lemma process_messages_quiet:
  assumes "\<not> stopped st"
    and "list_all (\<lambda>p. \<not> pending_confirmed (registry cfg) p) (concat (map parts ms))"
    and "process_messages cfg False st ms = (ms', st')"
  shows "\<not> stopped st'
         \<and> list_all (\<lambda>p. \<not> pending_confirmed (registry cfg) p) (concat (map parts ms'))
         \<and> (list_ex (\<lambda>p. call_of pr p \<and> (resolved p \<or> ready cfg p)) (concat (map parts ms))
              \<longrightarrow> list_ex (\<lambda>p. call_of pr p \<and> resolved p) (concat (map parts ms')))"
  using assms
proof (induction ms arbitrary: st ms' st')
  case Nil
  then show ?case by simp
next
  case (Cons m ms)
  obtain qs st1 where r: "process_parts cfg False st (parts m) = (qs, st1)"
    by (cases "process_parts cfg False st (parts m)")
  obtain ns st2 where pp: "process_messages cfg False st1 ms = (ns, st2)"
    by (cases "process_messages cfg False st1 ms")
  from Cons.prems(3) r pp have eq: "ms' = m\<lparr>parts := qs\<rparr> # ns" "st' = st2" by auto
  from Cons.prems(2) have np: "list_all (\<lambda>p. \<not> pending_confirmed (registry cfg) p) (parts m)"
    and nr: "list_all (\<lambda>p. \<not> pending_confirmed (registry cfg) p) (concat (map parts ms))"
    by simp_all
  note s1 = process_parts_quiet [OF Cons.prems(1) np r, of pr]
  from s1 have u1: "\<not> stopped st1" by simp
  note s2 = Cons.IH [OF u1 nr pp]
  from s1 s2 eq show ?case by auto
qed

lemma quiet_single: "quiet cfg H \<Longrightarrow> outstanding_approvals (registry cfg) H = 0"
  by (simp add: quiet_def outstanding_approvals_def list_all_iff filter_empty_conv)

lemma single_quiet: "outstanding_approvals (registry cfg) H = 0 \<Longrightarrow> quiet cfg H"
  by (simp add: quiet_def outstanding_approvals_def list_all_iff filter_empty_conv)

lemma processToolCalls_quiet:
  assumes "quiet cfg H"
  shows "quiet cfg (fst (processToolCalls cfg H))
         \<and> (list_ex (\<lambda>p. call_of pr p \<and> (resolved p \<or> ready cfg p)) (concat (map parts H))
              \<longrightarrow> surfaced_resolved (fst (processToolCalls cfg H)) pr)"
proof -
  let ?st0 = "\<lparr>stopped = False, deltas = [], invoked = []\<rparr>"
  obtain H' st where pm: "process_messages cfg False ?st0 H = (H', st)"
    by (cases "process_messages cfg False ?st0 H")
  have "fst (processToolCalls cfg H) = H'"
    using pm quiet_single [OF assms] by (simp add: processToolCalls_def)
  moreover note process_messages_quiet [OF _ _ pm, of pr]
  ultimately show ?thesis
    using assms by (simp add: quiet_def surfaced_resolved_def)
qed

lemma ready_proposed_part:
  assumes "lookup (registry cfg) (proposed_toolName pr) = Some d" "\<not> requiresApproval d"
    "executor d = Some f"
  shows "ready cfg (proposed_part pr) \<and> \<not> pending_confirmed (registry cfg) (proposed_part pr)"
  using assms by (simp add: ready_def proposed_part_def)

lemma step_quiet:
  assumes q: "quiet cfg H" and r: "runnable cfg g"
  shows "quiet cfg (fst (processToolCalls cfg (H @ [assistant_message g])))
         \<and> (surfaced_resolved H pr \<or> pr \<in> set (gen_calls g)
              \<longrightarrow> surfaced_resolved (fst (processToolCalls cfg (H @ [assistant_message g]))) pr)"
proof -
  have parts_am: "list_all (\<lambda>p. \<not> pending_confirmed (registry cfg) p)
                    (parts (assistant_message g))"
    using r ready_proposed_part [of cfg]
    by (auto simp: assistant_message_def runnable_def list_all_iff split: option.splits)
  with q have q': "quiet cfg (H @ [assistant_message g])"
    by (simp add: quiet_def)
  have "surfaced_resolved H pr \<or> pr \<in> set (gen_calls g) \<Longrightarrow>
        list_ex (\<lambda>p. call_of pr p \<and> (resolved p \<or> ready cfg p))
          (concat (map parts (H @ [assistant_message g])))"
  proof (erule disjE)
    assume "surfaced_resolved H pr"
    then show ?thesis by (auto simp: surfaced_resolved_def list_ex_iff)
  next
    assume m: "pr \<in> set (gen_calls g)"
    with r obtain d f where "lookup (registry cfg) (proposed_toolName pr) = Some d"
      "\<not> requiresApproval d" "executor d = Some f"
      by (auto simp: runnable_def)
    then have "ready cfg (proposed_part pr)"
      using ready_proposed_part by blast
    moreover have "proposed_part pr \<in> set (parts (assistant_message g))"
      using m by (simp add: assistant_message_def)
    ultimately show ?thesis
      using call_of_proposed_part [of pr] by (auto simp: list_ex_iff)
  qed
  with processToolCalls_quiet [OF q', of pr] show ?thesis by blast
qed

lemma accumulates_resolves:
  assumes "accumulates cfg H ss H'" "quiet cfg H" "\<forall>(H1, g)\<in>set ss. runnable cfg g"
  shows "quiet cfg H'
         \<and> (surfaced_resolved H pr \<or> (\<exists>(H1, g)\<in>set ss. pr \<in> set (gen_calls g))
              \<longrightarrow> surfaced_resolved H' pr)"
  using assms
proof (induction ss arbitrary: H)
  case Nil
  then show ?case by simp
next
  case (Cons s ss)
  obtain H2 g2 where s: "s = (H2, g2)" by (cases s)
  let ?H1 = "fst (processToolCalls cfg (H @ [assistant_message g2]))"
  from Cons.prems(1) s have a: "accumulates cfg ?H1 ss H'" by simp
  from Cons.prems(3) s have r2: "runnable cfg g2" and rs: "\<forall>(H1, g)\<in>set ss. runnable cfg g"
    by auto
  note st = step_quiet [OF Cons.prems(2) r2, of pr]
  from st have q1: "quiet cfg ?H1" by simp
  note ih = Cons.IH [OF a q1 rs]
  from st ih s show ?case by auto
qed

lemma parts_drop_dangling:
  "set (concat (map parts (drop_dangling mf H))) \<subseteq> set (concat (map parts H))"
proof (induction mf H rule: drop_dangling.induct)
  case (1 mf)
  then show ?case by simp
next
  case (2 mf m)
  then show ?case using set_sanitize_last [of mf "parts m"] by auto
next
  case (3 mf m m' ms)
  then show ?case by auto
qed

lemma quiet_cleanupMessages: "quiet cfg H \<Longrightarrow> quiet cfg (cleanupMessages mf H)"
proof -
  have "set (concat (map parts (cleanupMessages mf H))) \<subseteq> set (concat (map parts H))"
    using parts_drop_dangling [of mf H] by (auto simp: cleanupMessages_def)
  then show "quiet cfg H \<Longrightarrow> quiet cfg (cleanupMessages mf H)"
    by (auto simp: quiet_def list_all_iff)
qed

lemma step_loop_exhausts:
  assumes "\<forall>H. \<exists>g. model H = Inr g \<and> gen_calls g \<noteq> []
             \<and> (\<forall>pr\<in>set (gen_calls g).
                   \<exists>d f. lookup (registry cfg) (proposed_toolName pr) = Some d
                         \<and> \<not> requiresApproval d \<and> executor d = Some f)"
  shows "final_state (step_loop cfg model snapshot k done H) = DONE
         \<and> budget_exhausted (step_loop cfg model snapshot k done H)
         \<and> (\<exists>ss. steps (step_loop cfg model snapshot k done H) = done @ ss
                \<and> length ss = k
                \<and> (\<forall>(H1, g)\<in>set ss. model H1 = Inr g)
                \<and> accumulates cfg H ss (turn_history (step_loop cfg model snapshot k done H)))"
proof (induction k arbitrary: "done" H)
  case 0
  show ?case by simp
next
  case (Suc k)
  from assms obtain g where g: "model H = Inr g" "gen_calls g \<noteq> []"
    and auto: "\<forall>pr\<in>set (gen_calls g).
                   \<exists>d f. lookup (registry cfg) (proposed_toolName pr) = Some d
                         \<and> \<not> requiresApproval d \<and> executor d = Some f"
    by blast
  from auto have nc: "\<not> list_ex (is_confirmed (registry cfg)) (gen_calls g)"
    by (auto simp: list_ex_iff is_confirmed_def)
  let ?H' = "fst (processToolCalls cfg (H @ [assistant_message g]))"
  have eq: "step_loop cfg model snapshot (Suc k) done H
              = step_loop cfg model snapshot k (done @ [(H, g)]) ?H'"
    using g nc by (simp split: prod.splits)
  from Suc.IH [of "done @ [(H, g)]" ?H']
  obtain ss where ss: "steps (step_loop cfg model snapshot k (done @ [(H, g)]) ?H')
                         = (done @ [(H, g)]) @ ss"
    "length ss = k" "\<forall>(H1, g)\<in>set ss. model H1 = Inr g"
    "accumulates cfg ?H' ss (turn_history (step_loop cfg model snapshot k (done @ [(H, g)]) ?H'))"
    and fin: "final_state (step_loop cfg model snapshot k (done @ [(H, g)]) ?H') = DONE"
      "budget_exhausted (step_loop cfg model snapshot k (done @ [(H, g)]) ?H')"
    by blast
  have "steps (step_loop cfg model snapshot (Suc k) done H) = done @ ((H, g) # ss)
        \<and> length ((H, g) # ss) = Suc k
        \<and> (\<forall>(H1, g)\<in>set ((H, g) # ss). model H1 = Inr g)
        \<and> accumulates cfg H ((H, g) # ss)
            (turn_history (step_loop cfg model snapshot (Suc k) done H))"
    using eq ss g by simp
  with eq fin show ?case by metis
qed

lemma restless:
  "\<forall>H. \<exists>g. restless_model H = Inr g \<and> gen_calls g \<noteq> []
             \<and> (\<forall>pr\<in>set (gen_calls g).
                   \<exists>d f. lookup (registry (sample_config [])) (proposed_toolName pr) = Some d
                         \<and> \<not> requiresApproval d \<and> executor d = Some f)"
  by (simp add: restless_model_def sample_config_def sample_registry_def lookup_def)

subsection \<open>The claims\<close>

text \<open>
  C1: take a history that contains exactly one pending confirmed tool invocation \<open>c\<close>
  (state input-available, no output, its tool requires approval; no other part of the
  history is a pending invocation of a tool that requires approval), with a recorded
  decision REJECTED. After one pass of the approval-gated executor the history has the
  same shape, \<open>c\<close> is at its place in state output-available with the cancellation
  marker as its output, and the executor bound to the tool of \<open>c\<close> has been invoked zero
  times.
\<close>

theorem rejected_call_is_cancelled:
  assumes H: "H = Hpre @ m # Hpost"
    and m: "parts m = ppre @ ToolInvocation c # ppost"
    and c: "state c = InputAvailable" "output_value c = None"
    and d: "lookup (registry cfg) (toolName c) = Some d" "requiresApproval d"
    and rej: "decision_for (decisions cfg) (toolCallId c) = Some REJECTED"
    and others: "\<forall>p \<in> set (concat (map parts Hpre)) \<union> set ppre \<union> set ppost
                        \<union> set (concat (map parts Hpost)).
                   \<not> pending_confirmed (registry cfg) p"
  shows "case processToolCalls cfg H of
           (H', ds, log) \<Rightarrow>
             length H' = length H
             \<and> length (parts (H' ! length Hpre)) = length (parts m)
             \<and> parts (H' ! length Hpre) ! length ppre
                 = ToolInvocation (c\<lparr>state := OutputAvailable,
                                      output_value := Some (cancellation_marker cfg)\<rparr>)
             \<and> invocations_of (toolName c) log = []"
proof -
  let ?name = "toolName c"
  let ?st0 = "\<lparr>stopped = False, deltas = [], invoked = []\<rparr>"
  let ?C' = "ToolInvocation (c\<lparr>state := OutputAvailable,
                                output_value := Some (cancellation_marker cfg)\<rparr>)"
  from others have o1: "\<forall>p\<in>set (concat (map parts Hpre)). \<not> pending_confirmed (registry cfg) p"
    and o2: "\<forall>p\<in>set ppre. \<not> pending_confirmed (registry cfg) p"
    and o3: "\<forall>p\<in>set ppost. \<not> pending_confirmed (registry cfg) p"
    and o4: "\<forall>p\<in>set (concat (map parts Hpost)). \<not> pending_confirmed (registry cfg) p"
    by auto
  have pc: "pending_confirmed (registry cfg) (ToolInvocation c)"
    using c d by simp
  have "filter (pending_confirmed (registry cfg)) (concat (map parts H)) = [ToolInvocation c]"
    using H m pc filter_none [OF o1] filter_none [OF o2] filter_none [OF o3] filter_none [OF o4]
    by simp
  then have single: "(1 < outstanding_approvals (registry cfg) H) = False"
    by (simp add: outstanding_approvals_def)
  obtain Hpre' st1 where a1: "process_messages cfg False ?st0 Hpre = (Hpre', st1)"
    by (cases "process_messages cfg False ?st0 Hpre")
  have i1: "\<not> stopped st1 \<and> calls_of ?name st1 = calls_of ?name ?st0 \<and> length Hpre' = length Hpre"
    using process_messages_others [OF _ o1 d a1] by simp
  obtain ppre' st2 where a2: "process_parts cfg False st1 ppre = (ppre', st2)"
    by (cases "process_parts cfg False st1 ppre")
  have i2: "\<not> stopped st2 \<and> calls_of ?name st2 = calls_of ?name st1 \<and> length ppre' = length ppre"
    using process_parts_others [OF _ o2 d a2] i1 by simp
  obtain st3 where a3: "resolve_part cfg False st2 (ToolInvocation c) = (?C', st3)"
    and i3: "\<not> stopped st3 \<and> calls_of ?name st3 = calls_of ?name st2"
    using resolve_part_rejected [OF _ c d rej, of st2 False] i2 by (simp add: calls_of_def)
  obtain ppost' st4 where a4: "process_parts cfg False st3 ppost = (ppost', st4)"
    by (cases "process_parts cfg False st3 ppost")
  have i4: "\<not> stopped st4 \<and> calls_of ?name st4 = calls_of ?name st3 \<and> length ppost' = length ppost"
    using process_parts_others [OF _ o3 d a4] i3 by simp
  obtain Hpost' st5 where a5: "process_messages cfg False st4 Hpost = (Hpost', st5)"
    by (cases "process_messages cfg False st4 Hpost")
  have i5: "\<not> stopped st5 \<and> calls_of ?name st5 = calls_of ?name st4 \<and> length Hpost' = length Hpost"
    using process_messages_others [OF _ o4 d a5] i4 by simp
  have pm: "process_parts cfg False st1 (parts m) = (ppre' @ ?C' # ppost', st4)"
    using m a2 a3 a4 by (simp add: process_parts_append)
  have "process_messages cfg False ?st0 H
          = (Hpre' @ m\<lparr>parts := ppre' @ ?C' # ppost'\<rparr> # Hpost', st5)"
    using H a1 pm a5 by (simp add: process_messages_append)
  then have res: "processToolCalls cfg H
          = (Hpre' @ m\<lparr>parts := ppre' @ ?C' # ppost'\<rparr> # Hpost', deltas st5, invoked st5)"
    using single by (simp add: processToolCalls_def)
  have log: "filter (\<lambda>e. invoked_tool e = ?name) (invoked st5) = []"
    using i1 i2 i3 i4 i5 by (simp add: calls_of_def)
  show ?thesis
    using res log i1 i2 i4 i5 H m by (simp add: nth_append invocations_of_def)
qed

theorem rejected_call_is_cancelled_witness:
  "parts assistant_reply
     = [Text ''Let me check the time.'', ToolInvocation time_call]
       @ ToolInvocation calendar_call # []
   \<and> state calendar_call = InputAvailable \<and> output_value calendar_call = None
   \<and> lookup (registry (sample_config [rejection])) (toolName calendar_call)
       = Some (sample_registry ! 1)
   \<and> requiresApproval (sample_registry ! 1)
   \<and> decision_for (decisions (sample_config [rejection])) (toolCallId calendar_call)
       = Some REJECTED
   \<and> \<not> pending_confirmed (registry (sample_config [rejection])) (ToolInvocation time_call)
   \<and> (case processToolCalls (sample_config [rejection]) [user_request, assistant_reply] of
         (H', ds, log) \<Rightarrow>
           length H' = 2
           \<and> parts (H' ! 1) ! 2
               = ToolInvocation (calendar_call\<lparr>state := OutputAvailable,
                                                output_value := Some ''cancelled by the user''\<rparr>)
           \<and> invocations_of ''createCalendarEvent'' log = [])"
proof -
  let ?cfg = "sample_config [rejection]"
  have h1: "[user_request, assistant_reply] = [user_request] @ assistant_reply # []"
    by simp
  have h2: "parts assistant_reply
              = [Text ''Let me check the time.'', ToolInvocation time_call]
                @ ToolInvocation calendar_call # []"
    by (simp add: assistant_reply_def)
  have h3: "state calendar_call = InputAvailable" and h4: "output_value calendar_call = None"
    by (simp_all add: calendar_call_def)
  have h5: "lookup (registry ?cfg) (toolName calendar_call) = Some (sample_registry ! 1)"
    by (simp add: sample_config_def sample_registry_def lookup_def calendar_call_def)
  have h6: "requiresApproval (sample_registry ! 1)"
    by (simp add: sample_registry_def)
  have h7: "decision_for (decisions ?cfg) (toolCallId calendar_call) = Some REJECTED"
    by (simp add: sample_config_def decision_for_def rejection_def calendar_call_def)
  have t: "\<not> pending_confirmed (registry ?cfg) (ToolInvocation time_call)"
    by (simp add: sample_config_def sample_registry_def lookup_def time_call_def)
  have h8: "\<forall>p \<in> set (concat (map parts [user_request]))
                   \<union> set [Text ''Let me check the time.'', ToolInvocation time_call]
                   \<union> set [] \<union> set (concat (map parts [])).
              \<not> pending_confirmed (registry ?cfg) p"
    using t by (simp add: user_request_def)
  have m: "cancellation_marker ?cfg = ''cancelled by the user''"
    "toolName calendar_call = ''createCalendarEvent''"
    by (simp_all add: sample_config_def calendar_call_def)
  obtain H' ds log
    where r: "processToolCalls ?cfg [user_request, assistant_reply] = (H', ds, log)"
    by (cases "processToolCalls ?cfg [user_request, assistant_reply]")
  have "length H' = 2
        \<and> parts (H' ! 1) ! 2
            = ToolInvocation (calendar_call\<lparr>state := OutputAvailable,
                                             output_value := Some ''cancelled by the user''\<rparr>)
        \<and> invocations_of ''createCalendarEvent'' log = []"
    using rejected_call_is_cancelled [OF h1 h2 h3 h4 h5 h6 h7 h8] r m
    by (simp add: numeral_2_eq_2)
  with r h2 h3 h4 h5 h6 h7 t show ?thesis
    by simp
qed

text \<open>
  C2: the history sanitizer is idempotent. For every message list, cleaning the cleaned
  list gives the cleaned list again (whichever parts count as meaningful).
\<close>

theorem sanitizer_idempotent:
  "cleanupMessages mf (cleanupMessages mf H) = cleanupMessages mf H"
proof (cases H rule: rev_cases)
  case Nil
  then show ?thesis by (simp add: cleanupMessages_def)
next
  case (snoc ms m)
  let ?strip = "\<lambda>m. m\<lparr>parts := filter (\<lambda>p. \<not> non_terminal p) (parts m)\<rparr>"
  let ?ne = "\<lambda>m. parts m \<noteq> []"
  let ?l = "m\<lparr>parts := sanitize_last mf (parts m)\<rparr>"
  have dd: "drop_dangling mf H = map ?strip ms @ [?l]"
    using snoc by (simp add: drop_dangling_snoc)
  have cl: "list_all clean (filter ?ne (map ?strip ms))"
    by (auto simp: list_all_iff clean_def)
  show ?thesis
  proof (cases "sanitize_last mf (parts m) = []")
    case True
    then have "cleanupMessages mf H = filter ?ne (map ?strip ms)"
      by (simp add: cleanupMessages_def dd)
    moreover have "cleanupMessages mf (filter ?ne (map ?strip ms)) = filter ?ne (map ?strip ms)"
      using cl by (simp add: cleanupMessages_def drop_dangling_clean_id)
    ultimately show ?thesis by simp
  next
    case False
    then have c: "cleanupMessages mf H = filter ?ne (map ?strip ms) @ [?l]"
      by (simp add: cleanupMessages_def dd)
    have "drop_dangling mf (filter ?ne (map ?strip ms) @ [?l])
            = map ?strip (filter ?ne (map ?strip ms)) @ [?l\<lparr>parts := sanitize_last mf (parts ?l)\<rparr>]"
      by (rule drop_dangling_snoc)
    moreover have "map ?strip (filter ?ne (map ?strip ms)) = filter ?ne (map ?strip ms)"
      by (induction ms) auto
    moreover have "?l\<lparr>parts := sanitize_last mf (parts ?l)\<rparr> = ?l"
      by (simp add: sanitize_last_idem)
    ultimately have "drop_dangling mf (filter ?ne (map ?strip ms) @ [?l])
                       = filter ?ne (map ?strip ms) @ [?l]"
      by simp
    then have "cleanupMessages mf (filter ?ne (map ?strip ms) @ [?l])
                 = filter ?ne (map ?strip ms) @ [?l]"
      using False by (simp add: cleanupMessages_def)
    with c show ?thesis by simp
  qed
qed

theorem sanitizer_idempotent_witness:
  "cleanupMessages every_part dangling_history
     = [\<lparr>msg_id = ''m2'', role = User, parts = [Text ''hello''], createdAt = 2\<rparr>]
   \<and> cleanupMessages every_part (cleanupMessages every_part dangling_history)
       = [\<lparr>msg_id = ''m2'', role = User, parts = [Text ''hello''], createdAt = 2\<rparr>]"
proof -
  have c: "cleanupMessages every_part dangling_history
             = [\<lparr>msg_id = ''m2'', role = User, parts = [Text ''hello''], createdAt = 2\<rparr>]"
    by (simp add: cleanupMessages_def dangling_history_def calendar_call_def)
  show ?thesis
    using sanitizer_idempotent [of every_part dangling_history] c by simp
qed

text \<open>
  C3: the step loop is bounded by the step budget of 10. For every model that always
  answers with at least one new tool call, all of them autonomous (of a registered tool
  that needs no approval and has an executor), the turn ends after exactly 10 steps: it
  is DONE with the budget exhausted, the model has been invoked exactly 10 times, each
  time on the history the turn had reached, and the history returned is the one these 10
  steps accumulated from the processed history, so that it holds the invocation of every
  call proposed in any of the steps. When the stored history had no outstanding
  approval, each of these invocations is resolved (output-available, with its output).
\<close>

theorem step_budget_bounds_turn:
  assumes "\<forall>H. \<exists>g. model H = Inr g \<and> gen_calls g \<noteq> []
             \<and> (\<forall>pr\<in>set (gen_calls g).
                   \<exists>d f. lookup (registry cfg) (proposed_toolName pr) = Some d
                         \<and> \<not> requiresApproval d \<and> executor d = Some f)"
  shows "final_state (onChatMessage cfg meaningful model msgs) = DONE
         \<and> budget_exhausted (onChatMessage cfg meaningful model msgs)
         \<and> length (steps (onChatMessage cfg meaningful model msgs)) = 10
         \<and> (\<forall>(H, g)\<in>set (steps (onChatMessage cfg meaningful model msgs)). model H = Inr g)
         \<and> accumulates cfg (fst (processToolCalls cfg (cleanupMessages meaningful msgs)))
             (steps (onChatMessage cfg meaningful model msgs))
             (turn_history (onChatMessage cfg meaningful model msgs))
         \<and> (\<forall>(H, g)\<in>set (steps (onChatMessage cfg meaningful model msgs)).
              \<forall>pr\<in>set (gen_calls g).
                surfaced (turn_history (onChatMessage cfg meaningful model msgs)) pr)
         \<and> (outstanding_approvals (registry cfg) msgs = 0 \<longrightarrow>
              (\<forall>(H, g)\<in>set (steps (onChatMessage cfg meaningful model msgs)).
                 \<forall>pr\<in>set (gen_calls g).
                   surfaced_resolved (turn_history (onChatMessage cfg meaningful model msgs)) pr))"
proof -
  let ?P = "fst (processToolCalls cfg (cleanupMessages meaningful msgs))"
  let ?r = "onChatMessage cfg meaningful model msgs"
  have r: "?r = step_loop cfg model (cleanupMessages meaningful msgs) 10 [] ?P"
    by (cases "processToolCalls cfg (cleanupMessages meaningful msgs)")
       (simp add: onChatMessage_def step_budget_def Let_def)
  from step_loop_exhausts [OF assms, of "cleanupMessages meaningful msgs" 10 "[]" ?P] r
  have fin: "final_state ?r = DONE" "budget_exhausted ?r"
    and len: "length (steps ?r) = 10"
    and gen: "\<forall>(H, g)\<in>set (steps ?r). model H = Inr g"
    and acc: "accumulates cfg ?P (steps ?r) (turn_history ?r)"
    by auto
  have sur: "\<forall>(H, g)\<in>set (steps ?r). \<forall>pr\<in>set (gen_calls g). surfaced (turn_history ?r) pr"
    using accumulates_surfaces_steps [OF acc] by auto
  have run: "\<forall>(H, g)\<in>set (steps ?r). runnable cfg g"
  proof clarify
    fix H g assume "(H, g) \<in> set (steps ?r)"
    with gen have m: "model H = Inr g" by auto
    from assms obtain g' where "model H = Inr g'"
      "\<forall>pr\<in>set (gen_calls g').
          \<exists>d f. lookup (registry cfg) (proposed_toolName pr) = Some d
                \<and> \<not> requiresApproval d \<and> executor d = Some f"
      by blast
    with m show "runnable cfg g" by (simp add: runnable_def)
  qed
  have res: "\<forall>(H, g)\<in>set (steps ?r). \<forall>pr\<in>set (gen_calls g).
               surfaced_resolved (turn_history ?r) pr"
    if q: "outstanding_approvals (registry cfg) msgs = 0"
  proof -
    have "quiet cfg (cleanupMessages meaningful msgs)"
      using single_quiet [OF q] by (rule quiet_cleanupMessages)
    then have qP: "quiet cfg ?P"
      using processToolCalls_quiet by blast
    show ?thesis
      using accumulates_resolves [OF acc qP run] by blast
  qed
  from fin len gen acc sur res show ?thesis by blast
qed

theorem step_budget_bounds_turn_witness:
  "(\<forall>H. \<exists>g. restless_model H = Inr g \<and> gen_calls g \<noteq> []
             \<and> (\<forall>pr\<in>set (gen_calls g).
                   \<exists>d f. lookup (registry (sample_config [])) (proposed_toolName pr) = Some d
                         \<and> \<not> requiresApproval d \<and> executor d = Some f))
   \<and> outstanding_approvals (registry (sample_config [])) [user_request] = 0
   \<and> final_state (onChatMessage (sample_config []) every_part restless_model [user_request]) = DONE
   \<and> budget_exhausted (onChatMessage (sample_config []) every_part restless_model [user_request])
   \<and> length (steps (onChatMessage (sample_config []) every_part restless_model [user_request]))
       = 10
   \<and> list_all (\<lambda>(H, g). restless_model H = Inr g)
        (steps (onChatMessage (sample_config []) every_part restless_model [user_request]))
   \<and> surfaced_resolved
        (turn_history (onChatMessage (sample_config []) every_part restless_model [user_request]))
        \<lparr>proposed_toolCallId = ''c'', proposed_toolName = ''getLocalTime'',
         proposed_input = ''Lisbon''\<rparr>"
proof -
  let ?r = "onChatMessage (sample_config []) every_part restless_model [user_request]"
  let ?pr = "\<lparr>proposed_toolCallId = ''c'', proposed_toolName = ''getLocalTime'',
              proposed_input = ''Lisbon''\<rparr>"
  have q: "outstanding_approvals (registry (sample_config [])) [user_request] = 0"
    by (simp add: outstanding_approvals_def user_request_def)
  note main = step_budget_bounds_turn [OF restless, of every_part "[user_request]"]
  from main have len: "length (steps ?r) = 10"
    and gen: "\<forall>(H, g)\<in>set (steps ?r). restless_model H = Inr g"
    and res: "\<forall>(H, g)\<in>set (steps ?r). \<forall>pr\<in>set (gen_calls g).
                surfaced_resolved (turn_history ?r) pr"
    using q by blast+
  from len obtain s where s: "s \<in> set (steps ?r)"
    by (cases "steps ?r") auto
  obtain H g where hg: "s = (H, g)" by (cases s)
  with s gen have "restless_model H = Inr g" by auto
  then have "?pr \<in> set (gen_calls g)"
    by (auto simp: restless_model_def)
  with s hg res have "surfaced_resolved (turn_history ?r) ?pr" by auto
  moreover from gen have "list_all (\<lambda>(H, g). restless_model H = Inr g) (steps ?r)"
    by (simp add: list_all_iff)
  ultimately show ?thesis
    using main restless q by blast
qed

text \<open>
  C4: the registered tools fall into exactly two classes. The tools carrying an
  \<^verbatim>\<open>execute\<close> function are \<^verbatim>\<open>getLocalTime\<close>, \<^verbatim>\<open>scheduleTask\<close>, \<^verbatim>\<open>getScheduledTasks\<close> and
  \<^verbatim>\<open>cancelScheduledTask\<close>; the tools carrying none are \<^verbatim>\<open>getWeatherInformation\<close> and
  \<^verbatim>\<open>createCalendarEvent\<close>, and these two are exactly the keys of \<^verbatim>\<open>executions\<close>, each once.
  The two classes are disjoint and together make up the whole tool set; no tool with an
  \<^verbatim>\<open>execute\<close> function has an entry in \<^verbatim>\<open>executions\<close>.
\<close>

theorem tools_partition:
  "autonomous_tools (tools ops render)
     = [''getLocalTime'', ''scheduleTask'', ''getScheduledTasks'', ''cancelScheduledTask'']
   \<and> confirmed_tools (tools ops render) = [''getWeatherInformation'', ''createCalendarEvent'']
   \<and> executions_keys (executions w) = confirmed_tools (tools ops render)
   \<and> distinct (map fst (tools_entries (tools ops render)))
   \<and> distinct (executions_keys (executions w))
   \<and> set (autonomous_tools (tools ops render)) \<inter> set (confirmed_tools (tools ops render)) = {}
   \<and> set (autonomous_tools (tools ops render)) \<union> set (confirmed_tools (tools ops render))
       = set (map fst (tools_entries (tools ops render)))
   \<and> map (count_list (executions_keys (executions w))) (confirmed_tools (tools ops render)) = [1, 1]
   \<and> map (count_list (executions_keys (executions w))) (autonomous_tools (tools ops render))
       = [0, 0, 0, 0]"
  by (simp add: autonomous_tools_def confirmed_tools_def tools_entries_def tools_def
      executions_keys_def has_execute_def tool_getWeatherInformation_def tool_getLocalTime_def
      tool_scheduleTask_def tool_getScheduledTasks_def tool_cancelScheduledTask_def
      tool_createCalendarEvent_def insert_commute)

text \<open>
  C5: a failing executor is meant to be data: when the operation it wraps fails, the
  executor returns a formatted error string. The executor of \<^verbatim>\<open>scheduleTask\<close> misses this:
  it does not await \<^verbatim>\<open>agent.schedule\<close>, so when scheduling fails (the promise is rejected,
  here because the table of schedules is missing) the \<^verbatim>\<open>try\<close> block has already been left
  and the executor returns the text of a successful scheduling. The executor of
  \<^verbatim>\<open>cancelScheduledTask\<close>, which awaits its call, turns the same failure into the error
  string. Besides, a thrown value without a string form (a symbol) makes the template
  literal in the \<^verbatim>\<open>catch\<close> block throw, and that exception leaves the executor.
\<close>

theorem scheduleTask_reports_success_on_failure:
  \<open>op_schedule (failing_ops table_missing) (Some (SCron ''0 9 * * 1'')) ''executeTask''
       (taskDescription cron_input) 0
     = (Inr (Inl table_missing), 0)
   \<and> scheduleTask_execute (failing_ops table_missing) render_plain (Some 0) cron_input
     = \<lparr>result = Inr ''Task scheduled for type "cron": 0 9 * * 1 with due date: Friday'',
        calls = [CallSchedule (Some (SCron ''0 9 * * 1'')) ''executeTask''
                   ''water the plants (Due: Friday)''],
        agent_after = Some 0\<rparr>
   \<and> op_cancelSchedule (failing_ops table_missing) ''42'' 0 = (Inl table_missing, 0)
   \<and> result (cancelScheduledTask_execute (failing_ops table_missing) (Some 0) ''42'')
     = Inr ''Error canceling task 42: Error: no such table: cf_agents_schedules''
   \<and> result (cancelScheduledTask_execute (failing_ops (ThrownSymbol ''busy'')) (Some 0) ''42'')
     = Inl (ErrorObj ''TypeError'' ''Cannot convert a Symbol value to a string'')\<close>
  by (simp add: failing_ops_def table_missing_def cron_input_def scheduleTask_execute_def
      schedule_target_def taskDescription_def render_plain_def
      cancelScheduledTask_execute_def error_output_def)

text \<open>
  C6: for every input whose \<^verbatim>\<open>when.type\<close> is \<^verbatim>\<open>no-schedule\<close>, the executor of
  \<^verbatim>\<open>scheduleTask\<close> returns the string \<^verbatim>\<open>Not a valid schedule input\<close> as its output, calls no
  method of the agent (in particular not \<^verbatim>\<open>schedule\<close>), leaves the agent as it was, and
  lets no exception escape.
\<close>

theorem no_schedule_is_recoverable:
  "wtype (sched_when inp) = NoSchedule \<Longrightarrow>
   scheduleTask_execute ops render ctx inp
     = \<lparr>result = Inr ''Not a valid schedule input'', calls = [], agent_after = ctx\<rparr>"
  by (simp add: scheduleTask_execute_def)

theorem no_schedule_is_recoverable_witness:
  "wtype (sched_when no_schedule_input) = NoSchedule
   \<and> scheduleTask_execute counting_ops render_plain (Some 0) no_schedule_input
     = \<lparr>result = Inr ''Not a valid schedule input'', calls = [], agent_after = Some 0\<rparr>"
proof -
  have h: "wtype (sched_when no_schedule_input) = NoSchedule"
    by (simp add: no_schedule_input_def)
  show ?thesis
    using h no_schedule_is_recoverable [OF h, of counting_ops render_plain "Some 0"] by simp
qed

text \<open>
  C7: for a tool invocation that needs confirmation and is in state input-available, the
  card offers the two approval buttons: a click on Approve submits exactly
  \<^verbatim>\<open>APPROVAL.YES\<close> and a click on Reject exactly \<^verbatim>\<open>APPROVAL.NO\<close>, each bound to the call
  identifier the card was given. No button of the card submits another value or another
  identifier, buttons are offered only while the invocation needs confirmation and is in
  state input-available, and when the card is given the invocation's own identifier, that
  is the identifier every submission carries.
\<close>

theorem approval_card_submits_decision:
  "(needsConfirmation p \<and> state (toolUIPart p) = InputAvailable \<longrightarrow>
      click ''Approve'' (ToolInvocationCard A p)
        = [\<lparr>submit_toolCallId = card_toolCallId p, submit_result = YES A\<rparr>]
      \<and> click ''Reject'' (ToolInvocationCard A p)
        = [\<lparr>submit_toolCallId = card_toolCallId p, submit_result = NO A\<rparr>])
   \<and> (\<forall>b\<in>set (buttons (ToolInvocationCard A p)).
        submit_toolCallId (onClick b) = card_toolCallId p
        \<and> (submit_result (onClick b) = YES A \<or> submit_result (onClick b) = NO A))
   \<and> (buttons (ToolInvocationCard A p) \<noteq> [] \<longrightarrow>
        needsConfirmation p \<and> state (toolUIPart p) = InputAvailable)
   \<and> (card_toolCallId p = toolCallId (toolUIPart p) \<longrightarrow>
        (\<forall>b\<in>set (buttons (ToolInvocationCard A p)).
           submit_toolCallId (onClick b) = toolCallId (toolUIPart p)))"
  by (auto simp: ToolInvocationCard_def click_def)

theorem approval_card_submits_decision_witness:
  "needsConfirmation pending_card \<and> state (toolUIPart pending_card) = InputAvailable
   \<and> card_toolCallId pending_card = toolCallId (toolUIPart pending_card)
   \<and> buttons (ToolInvocationCard sample_approval pending_card) \<noteq> []
   \<and> click ''Approve'' (ToolInvocationCard sample_approval pending_card)
       = [\<lparr>submit_toolCallId = ''call-2'', submit_result = ''Yes, confirmed.''\<rparr>]
   \<and> click ''Reject'' (ToolInvocationCard sample_approval pending_card)
       = [\<lparr>submit_toolCallId = ''call-2'', submit_result = ''No, denied.''\<rparr>]
   \<and> map (\<lambda>b. submit_toolCallId (onClick b))
         (buttons (ToolInvocationCard sample_approval pending_card))
       = [''call-2'', ''call-2'']"
proof -
  have h: "needsConfirmation pending_card \<and> state (toolUIPart pending_card) = InputAvailable"
    by (simp add: pending_card_def calendar_call_def)
  have i: "card_toolCallId pending_card = toolCallId (toolUIPart pending_card)"
    by (simp add: pending_card_def calendar_call_def)
  have b: "buttons (ToolInvocationCard sample_approval pending_card) \<noteq> []"
    using h by (simp add: ToolInvocationCard_def)
  have s: "card_toolCallId pending_card = ''call-2''" "YES sample_approval = ''Yes, confirmed.''"
    "NO sample_approval = ''No, denied.''"
    by (simp_all add: pending_card_def sample_approval_def)
  have ids: "map (\<lambda>b. submit_toolCallId (onClick b))
               (buttons (ToolInvocationCard sample_approval pending_card))
             = [''call-2'', ''call-2'']"
    using h s by (simp add: ToolInvocationCard_def)
  show ?thesis
    using approval_card_submits_decision [of pending_card sample_approval] h i b s ids
    by simp
qed

text \<open>
  C8, as stated: the text of an exception raised inside an executor never appears
  verbatim in the output. The code does the opposite: when \<^verbatim>\<open>cancelSchedule\<close> throws an
  error with the message \<^verbatim>\<open>no such table: cf_agents_schedules\<close>, that message is part of
  the string \<^verbatim>\<open>cancelScheduledTask\<close> returns.
\<close>

theorem error_detail_hidden_counterexample:
  "fst (op_cancelSchedule (failing_ops table_missing) ''42'' 0) = Inl table_missing
   \<and> error_message table_missing = Inr ''no such table: cf_agents_schedules''
   \<and> result (cancelScheduledTask_execute (failing_ops table_missing) (Some 0) ''42'')
       = Inr ''Error canceling task 42: Error: no such table: cf_agents_schedules''
   \<and> sublist ''no such table: cf_agents_schedules''
        ''Error canceling task 42: Error: no such table: cf_agents_schedules''"
proof (intro conjI)
  show "sublist ''no such table: cf_agents_schedules''
        ''Error canceling task 42: Error: no such table: cf_agents_schedules''"
    by code_simp
qed (simp_all add: failing_ops_def table_missing_def cancelScheduledTask_execute_def
    error_output_def)

text \<open>
  C8, amended: when the operation wrapped by the executor of \<^verbatim>\<open>getScheduledTasks\<close> or
  \<^verbatim>\<open>cancelScheduledTask\<close> or by \<^verbatim>\<open>executions.createCalendarEvent\<close> throws a value that has a
  string form, the output is a fixed wording around that text, which it contains verbatim
  (the string form of the exception for the two scheduling tools, its message for
  \<^verbatim>\<open>executions.createCalendarEvent\<close>); the output is longer than that text by the fixed
  wording (and the task identifier) only.
\<close>

theorem error_text_is_surfaced:
  "(fst (op_getSchedules ops a) = Inl e2 \<longrightarrow> js_to_string e2 = Inr text2
        \<longrightarrow> (\<exists>out. result (getScheduledTasks_execute ops (Some a)) = Inr (Message out)
                  \<and> sublist text2 out
                  \<and> length out = 31 + length text2))
   \<and> (fst (op_cancelSchedule ops taskId a) = Inl e3 \<longrightarrow> js_to_string e3 = Inr text3
        \<longrightarrow> (\<exists>out. result (cancelScheduledTask_execute ops (Some a) taskId) = Inr out
                  \<and> sublist text3 out
                  \<and> length out = 23 + length taskId + length text3))
   \<and> (createCalendarEvent_attempt w ev = Inl e4 \<longrightarrow> error_message e4 = Inr text4
        \<longrightarrow> (\<exists>out. createCalendarEvent_execution w ev = Inr out
                  \<and> sublist text4 out
                  \<and> length out = 37 + length text4 + length possible_causes))"
proof (intro conjI impI)
  assume "fst (op_getSchedules ops a) = Inl e2" "js_to_string e2 = Inr text2"
  then have "result (getScheduledTasks_execute ops (Some a))
               = Inr (Message (''Error listing scheduled tasks: '' @ text2))"
    by (rule getScheduledTasks_throw)
  moreover have "sublist text2 (''Error listing scheduled tasks: '' @ text2)"
    by (rule sublist_append_leftI)
  ultimately show "\<exists>out. result (getScheduledTasks_execute ops (Some a)) = Inr (Message out)
                  \<and> sublist text2 out
                  \<and> length out = 31 + length text2"
    by simp
next
  assume "fst (op_cancelSchedule ops taskId a) = Inl e3" "js_to_string e3 = Inr text3"
  then have "result (cancelScheduledTask_execute ops (Some a) taskId)
               = Inr (''Error canceling task '' @ taskId @ '': '' @ text3)"
    by (rule cancelScheduledTask_throw)
  moreover have "sublist text3 ((''Error canceling task '' @ taskId @ '': '') @ text3)"
    by (rule sublist_append_leftI)
  ultimately show "\<exists>out. result (cancelScheduledTask_execute ops (Some a) taskId) = Inr out
                  \<and> sublist text3 out
                  \<and> length out = 23 + length taskId + length text3"
    by simp
next
  assume "createCalendarEvent_attempt w ev = Inl e4" "error_message e4 = Inr text4"
  then have "createCalendarEvent_execution w ev
               = Inr (cross_mark @ '' Failed to create calendar event: '' @ text4
                      @ possible_causes)"
    by (rule createCalendarEvent_throw)
  moreover have "sublist text4
                   ((cross_mark @ '' Failed to create calendar event: '') @ text4
                      @ possible_causes)"
    by (rule sublist_appendI)
  ultimately show "\<exists>out. createCalendarEvent_execution w ev = Inr out
                  \<and> sublist text4 out
                  \<and> length out = 37 + length text4 + length possible_causes"
    by (simp add: cross_mark_def)
qed

theorem error_text_is_surfaced_witness:
  "fst (op_getSchedules (failing_ops table_missing) 0) = Inl table_missing
   \<and> fst (op_cancelSchedule (failing_ops table_missing) ''42'' 0) = Inl table_missing
   \<and> js_to_string table_missing = Inr ''Error: no such table: cf_agents_schedules''
   \<and> (\<exists>out. result (getScheduledTasks_execute (failing_ops table_missing) (Some 0))
               = Inr (Message out)
           \<and> sublist ''Error: no such table: cf_agents_schedules'' out)
   \<and> (\<exists>out. result (cancelScheduledTask_execute (failing_ops table_missing) (Some 0) ''42'')
               = Inr out
           \<and> sublist ''Error: no such table: cf_agents_schedules'' out)
   \<and> (\<exists>e text out. createCalendarEvent_attempt offline_world review_event = Inl e
           \<and> error_message e = Inr text
           \<and> createCalendarEvent_execution offline_world review_event = Inr out
           \<and> sublist text out)"
proof -
  have h4: "fst (op_getSchedules (failing_ops table_missing) 0) = Inl table_missing"
    by (simp add: failing_ops_def)
  have h5: "fst (op_cancelSchedule (failing_ops table_missing) ''42'' 0) = Inl table_missing"
    by (simp add: failing_ops_def)
  have t: "js_to_string table_missing = Inr ''Error: no such table: cf_agents_schedules''"
    by (simp add: table_missing_def)
  have m: "error_message (ErrorObj ''Error''
             (''Google Calendar credentials not found. ''
              @ ''Make sure GOOGLE_CLIENT_ID, GOOGLE_CLIENT_SECRET, and GOOGLE_REFRESH_TOKEN ''
              @ ''are set in your .dev.vars file and restart the dev server.''))
           = Inr (''Google Calendar credentials not found. ''
              @ ''Make sure GOOGLE_CLIENT_ID, GOOGLE_CLIENT_SECRET, and GOOGLE_REFRESH_TOKEN ''
              @ ''are set in your .dev.vars file and restart the dev server.'')"
    by simp
  note main = error_text_is_surfaced [of "failing_ops table_missing" 0 table_missing
      "''Error: no such table: cf_agents_schedules''" "''42''" table_missing
      "''Error: no such table: cf_agents_schedules''" offline_world review_event
      "ErrorObj ''Error''
             (''Google Calendar credentials not found. ''
              @ ''Make sure GOOGLE_CLIENT_ID, GOOGLE_CLIENT_SECRET, and GOOGLE_REFRESH_TOKEN ''
              @ ''are set in your .dev.vars file and restart the dev server.'')"
      "''Google Calendar credentials not found. ''
              @ ''Make sure GOOGLE_CLIENT_ID, GOOGLE_CLIENT_SECRET, and GOOGLE_REFRESH_TOKEN ''
              @ ''are set in your .dev.vars file and restart the dev server.''"]
  show ?thesis
    using main h4 h5 t offline_attempt m by blast
qed

text \<open>
  C9: \<^verbatim>\<open>executeTask\<close> keeps the history and appends exactly one message. For every prior
  message list and every description, the list saved is the prior list (unchanged, as
  the first entries) followed by one new message, whose role is \<^verbatim>\<open>user\<close> and whose only
  part is the text \<^verbatim>\<open>Running scheduled task: \<close> followed by the description.
\<close>

theorem executeTask_appends_one_message:
  "messages (executeTask d newId now c) =
     messages c @ [\<lparr>msg_id = newId, role = User,
                    parts = [Text (''Running scheduled task: '' @ d)], createdAt = now\<rparr>]
   \<and> length (messages (executeTask d newId now c)) = Suc (length (messages c))
   \<and> take (length (messages c)) (messages (executeTask d newId now c)) = messages c
   \<and> role (last (messages (executeTask d newId now c))) = User
   \<and> parts (last (messages (executeTask d newId now c)))
       = [Text (''Running scheduled task: '' @ d)]"
  by (simp add: executeTask_def saveMessages_def)

text \<open>
  C10: the executor of \<^verbatim>\<open>getLocalTime\<close> is a constant function. For every location it
  returns the string \<^verbatim>\<open>10am\<close>, so two runs with different locations give the same result;
  and this is the \<^verbatim>\<open>execute\<close> function the tool set registers under \<^verbatim>\<open>getLocalTime\<close>, which
  calls no method of the agent.
\<close>

theorem getLocalTime_constant:
  "getLocalTime_execute loc = ''10am''
   \<and> getLocalTime_execute loc1 = getLocalTime_execute loc2
   \<and> (case execute (getLocalTime (tools ops render)) of
         None \<Rightarrow> False
       | Some f \<Rightarrow> f ctx loc = \<lparr>result = Inr ''10am'', calls = [], agent_after = ctx\<rparr>)"
  by (simp add: getLocalTime_execute_def tools_def tool_getLocalTime_def)

end
